theory Spec2Isabelle
  imports Main
begin

section \<open>JavaScript values used by the chat widget\<close>

text \<open>
  Numbers. The widget only computes with the page's port and with integers found in JSON
  bodies, so a number is \<open>NaN\<close> or an integer. Fractions, infinities and the loss of
  precision above \<open>2^53\<close> are outside the model.
\<close>

datatype jsnum = NaN | Finite int

fun num_add :: "jsnum \<Rightarrow> jsnum \<Rightarrow> jsnum" where
  "num_add (Finite a) (Finite b) = Finite (a + b)"
| "num_add _ _ = NaN"

fun num_sub :: "jsnum \<Rightarrow> jsnum \<Rightarrow> jsnum" where
  "num_sub (Finite a) (Finite b) = Finite (a - b)"
| "num_sub _ _ = NaN"

text \<open>
  Strings are byte strings: ASCII characters are themselves, any other character is its
  UTF-8 encoding.
\<close>

definition is_digit :: "char \<Rightarrow> bool" where
  "is_digit c = (48 \<le> (of_char c :: nat) \<and> (of_char c :: nat) \<le> 57)"

definition is_hex_digit :: "char \<Rightarrow> bool" where
  "is_hex_digit c =
     (is_digit c \<or> (97 \<le> (of_char c :: nat) \<and> (of_char c :: nat) \<le> 102)
      \<or> (65 \<le> (of_char c :: nat) \<and> (of_char c :: nat) \<le> 70))"

definition digit_val :: "char \<Rightarrow> nat" where
  "digit_val c =
     (let n = (of_char c :: nat)
      in if 97 \<le> n then n - 87 else if 65 \<le> n then n - 55 else n - 48)"

definition digit_char :: "nat \<Rightarrow> char" where
  "digit_char d = ''0123456789'' ! d"

text \<open>
  The white space that \<open>String.prototype.trim\<close> and \<open>parseInt\<close> skip: the WhiteSpace and
  LineTerminator characters of ECMAScript, in UTF-8. One byte: U+0009 to U+000D and U+0020.
  Two bytes: U+00A0 (\<open>C2 A0\<close>). Three bytes: U+1680 (\<open>E1 9A 80\<close>), U+2000 to U+200A
  (\<open>E2 80 80\<close> to \<open>E2 80 8A\<close>), U+2028, U+2029, U+202F (\<open>E2 80 A8\<close>, \<open>E2 80 A9\<close>,
  \<open>E2 80 AF\<close>), U+205F (\<open>E2 81 9F\<close>), U+3000 (\<open>E3 80 80\<close>) and U+FEFF (\<open>EF BB BF\<close>).
\<close>

definition is_ws1 :: "char \<Rightarrow> bool" where
  "is_ws1 a = ((of_char a :: nat) \<in> {0x09, 0x0A, 0x0B, 0x0C, 0x0D, 0x20})"

definition is_ws2 :: "char \<Rightarrow> char \<Rightarrow> bool" where
  "is_ws2 a b = ((of_char a :: nat) = 0xC2 \<and> (of_char b :: nat) = 0xA0)"

definition is_ws3 :: "char \<Rightarrow> char \<Rightarrow> char \<Rightarrow> bool" where
  "is_ws3 a b c =
     (((of_char a :: nat) = 0xE1 \<and> (of_char b :: nat) = 0x9A \<and> (of_char c :: nat) = 0x80)
      \<or> ((of_char a :: nat) = 0xE2 \<and> (of_char b :: nat) = 0x80
          \<and> ((0x80 \<le> (of_char c :: nat) \<and> (of_char c :: nat) \<le> 0x8A)
              \<or> (of_char c :: nat) \<in> {0xA8, 0xA9, 0xAF}))
      \<or> ((of_char a :: nat) = 0xE2 \<and> (of_char b :: nat) = 0x81 \<and> (of_char c :: nat) = 0x9F)
      \<or> ((of_char a :: nat) = 0xE3 \<and> (of_char b :: nat) = 0x80 \<and> (of_char c :: nat) = 0x80)
      \<or> ((of_char a :: nat) = 0xEF \<and> (of_char b :: nat) = 0xBB \<and> (of_char c :: nat) = 0xBF))"

text \<open>
  Dropping the white-space characters at the front of a string, \<open>w2\<close> and \<open>w3\<close>
  recognising the ones of two and of three bytes.
\<close>

fun strip :: "(char \<Rightarrow> char \<Rightarrow> bool) \<Rightarrow> (char \<Rightarrow> char \<Rightarrow> char \<Rightarrow> bool) \<Rightarrow> string \<Rightarrow> string" where
  "strip w2 w3 (a # b # c # s) =
     (if is_ws1 a then strip w2 w3 (b # c # s)
      else if w2 a b then strip w2 w3 (c # s)
      else if w3 a b c then strip w2 w3 s
      else a # b # c # s)"
| "strip w2 w3 [a, b] =
     (if is_ws1 a then strip w2 w3 [b] else if w2 a b then [] else [a, b])"
| "strip w2 w3 [a] = (if is_ws1 a then [] else [a])"
| "strip w2 w3 [] = []"

definition trimStart :: "string \<Rightarrow> string" where
  "trimStart s = strip is_ws2 is_ws3 s"

text \<open>At the end of the string the bytes of a character are met in reverse.\<close>

definition trimEnd :: "string \<Rightarrow> string" where
  "trimEnd s = rev (strip (\<lambda>a b. is_ws2 b a) (\<lambda>a b c. is_ws3 c b a) (rev s))"

definition trim :: "string \<Rightarrow> string" where
  "trim s = trimEnd (trimStart s)"

text \<open>Number to string, as a template literal does it.\<close>

fun nat_to_string :: "nat \<Rightarrow> string" where
  "nat_to_string n =
     (if n < 10 then [digit_char n] else nat_to_string (n div 10) @ [digit_char (n mod 10)])"

declare nat_to_string.simps [simp del]

definition num_to_string :: "jsnum \<Rightarrow> string" where
  "num_to_string x =
     (case x of
        NaN \<Rightarrow> ''NaN''
      | Finite i \<Rightarrow> if i < 0 then ''-'' @ nat_to_string (nat (- i)) else nat_to_string (nat i))"

text \<open>
  \<open>parseInt(s)\<close> with no radix: leading white space, an optional sign, an optional
  \<open>0x\<close> prefix choosing base 16, then the longest run of digits; \<open>NaN\<close> when there is
  no digit.
\<close>

definition digits_value :: "nat \<Rightarrow> string \<Rightarrow> nat" where
  "digits_value radix ds = foldl (\<lambda>acc c. acc * radix + digit_val c) 0 ds"

definition parse_digits :: "int \<Rightarrow> nat \<Rightarrow> (char \<Rightarrow> bool) \<Rightarrow> string \<Rightarrow> jsnum" where
  "parse_digits sign radix ok s =
     (let ds = takeWhile ok s
      in if ds = [] then NaN else Finite (sign * int (digits_value radix ds)))"

definition parse_unsigned :: "int \<Rightarrow> string \<Rightarrow> jsnum" where
  "parse_unsigned sign s =
     (if take 2 s = ''0x'' \<or> take 2 s = ''0X''
      then parse_digits sign 16 is_hex_digit (drop 2 s)
      else parse_digits sign 10 is_digit s)"

definition parseInt :: "string \<Rightarrow> jsnum" where
  "parseInt s =
     (case trimStart s of
        [] \<Rightarrow> NaN
      | c # r \<Rightarrow>
          if c = CHR ''-'' then parse_unsigned (- 1) r
          else if c = CHR ''+'' then parse_unsigned 1 r
          else parse_unsigned 1 (c # r))"

section \<open>Resolving the backend URL from the page's port\<close>

text \<open>
  The global \<open>getBackendUrl()\<close> (lines 3-12). Its only input is \<open>window.location.port\<close>,
  a string that is empty when the page's URL has no port.
\<close>

definition getBackendUrl :: "string \<Rightarrow> string" where
  "getBackendUrl currentPort =
     (if currentPort \<noteq> []
      then (let backendPort = num_sub (parseInt currentPort) (Finite 1)
            in ''http://localhost:'' @ num_to_string backendPort)
      else ''http://localhost:8002'')"

section \<open>Values parsed from JSON bodies\<close>

text \<open>
  The values \<open>response.json()\<close> can give, with \<open>undefined\<close> for a property that is not
  there. An object keeps its members in the order of the body.
\<close>

datatype jsval =
    JUndefined
  | JNull
  | JBool bool
  | JNum jsnum
  | JStr string
  | JArr "jsval list"
  | JObj "(string \<times> jsval) list"

text \<open>
  A thrown \<open>Error\<close> is represented by its \<open>message\<close>, the only part the widget reads.
  The wording of the engine's own \<open>TypeError\<close>s is V8's.
\<close>

type_synonym 'a throws = "string + 'a"

definition truthy :: "jsval \<Rightarrow> bool" where
  "truthy v =
     (case v of
        JUndefined \<Rightarrow> False
      | JNull \<Rightarrow> False
      | JBool b \<Rightarrow> b
      | JNum NaN \<Rightarrow> False
      | JNum (Finite i) \<Rightarrow> i \<noteq> 0
      | JStr s \<Rightarrow> s \<noteq> []
      | JArr _ \<Rightarrow> True
      | JObj _ \<Rightarrow> True)"

text \<open>\<open>a || b\<close>\<close>

definition js_or :: "jsval \<Rightarrow> jsval \<Rightarrow> jsval" where
  "js_or a b = (if truthy a then a else b)"

text \<open>
  \<open>ToString\<close>, as a template literal applies it. An array joins its elements with commas,
  \<open>null\<close> and \<open>undefined\<close> elements giving the empty string. A parsed object has no
  callable member, so one with a member named \<open>toString\<close> cannot be converted.
\<close>

fun to_string :: "jsval \<Rightarrow> string throws"
  and join_elems :: "jsval list \<Rightarrow> string throws" where
  "to_string JUndefined = Inr ''undefined''"
| "to_string JNull = Inr ''null''"
| "to_string (JBool b) = Inr (if b then ''true'' else ''false'')"
| "to_string (JNum n) = Inr (num_to_string n)"
| "to_string (JStr s) = Inr s"
| "to_string (JArr xs) = join_elems xs"
| "to_string (JObj kvs) =
     (if ''toString'' \<in> set (map fst kvs)
      then Inl ''Cannot convert object to primitive value''
      else Inr ''[object Object]'')"
| "join_elems [] = Inr []"
| "join_elems (x # xs) =
     (case (if x = JUndefined \<or> x = JNull then Inr [] else to_string x) of
        Inl e \<Rightarrow> Inl e
      | Inr a \<Rightarrow>
          (case join_elems xs of
             Inl e \<Rightarrow> Inl e
           | Inr b \<Rightarrow> Inr (if xs = [] then a else a @ '','' @ b)))"

text \<open>
  Reading a property \<open>v.p\<close>, for the names the widget reads (\<open>status\<close>, \<open>response\<close>,
  \<open>error\<close>, \<open>files\<close>, \<open>filename\<close>, \<open>length\<close>): none of them is inherited by a parsed
  value, apart from the \<open>length\<close> of arrays and strings. Of a repeated member the last
  one counts. A string's \<open>length\<close> is only ever compared with 0.
\<close>

definition js_get :: "jsval \<Rightarrow> string \<Rightarrow> jsval throws" where
  "js_get v p =
     (case v of
        JUndefined \<Rightarrow>
          Inl (''Cannot read properties of undefined (reading '' @ [CHR 0x27] @ p @ [CHR 0x27] @ '')'')
      | JNull \<Rightarrow>
          Inl (''Cannot read properties of null (reading '' @ [CHR 0x27] @ p @ [CHR 0x27] @ '')'')
      | JBool _ \<Rightarrow> Inr JUndefined
      | JNum _ \<Rightarrow> Inr JUndefined
      | JStr s \<Rightarrow> Inr (if p = ''length'' then JNum (Finite (int (length s))) else JUndefined)
      | JArr xs \<Rightarrow> Inr (if p = ''length'' then JNum (Finite (int (length xs))) else JUndefined)
      | JObj kvs \<Rightarrow> Inr (case map_of (rev kvs) p of None \<Rightarrow> JUndefined | Some x \<Rightarrow> x))"

text \<open>
  Assigning to \<open>textContent\<close>: \<open>null\<close> and \<open>undefined\<close> give the empty text, anything
  else is converted to a string.
\<close>

definition to_textContent :: "jsval \<Rightarrow> string throws" where
  "to_textContent v = (if v = JUndefined \<or> v = JNull then Inr [] else to_string v)"

section \<open>The network\<close>

text \<open>
  A request as \<open>fetch\<close> receives it. \<open>req_body\<close> holds the value handed to
  \<open>JSON.stringify\<close>.
\<close>

record request =
  req_method :: string
  req_url :: string
  req_headers :: "(string \<times> string) list"
  req_body :: "jsval option"

text \<open>
  A response: its HTTP status, and what \<open>response.json()\<close> gives, a parsed value or the
  message of the error it throws on a body that is not JSON.
\<close>

record response =
  resp_status :: nat
  resp_json :: "jsval throws"

definition ok :: "response \<Rightarrow> bool" where
  "ok r = (200 \<le> resp_status r \<and> resp_status r \<le> 299)"

datatype fetch_result = Rejected string | Resolved response

text \<open>
  The backend and the transport are a parameter: what the \<open>n\<close>-th call of \<open>fetch\<close> of
  the session gives for its request.
\<close>

type_synonym net = "nat \<Rightarrow> request \<Rightarrow> fetch_result"

text \<open>
  \<open>fetch\<close> parses its URL first and rejects when that fails. Every URL the widget
  builds is \<open>http://localhost:\<close> followed by a number and a path; such a URL parses
  when the port is a run of digits of value at most 65535. What other URLs do is left to
  the parameter.
\<close>

definition url_port :: "string \<Rightarrow> string option" where
  "url_port u =
     (if take 17 u = ''http://localhost:''
      then Some (takeWhile (\<lambda>c. c \<notin> set [CHR ''/'', CHR ''?'', CHR ''#'', CHR 0x5C]) (drop 17 u))
      else None)"

definition valid_port :: "string \<Rightarrow> bool" where
  "valid_port p = (list_all is_digit p \<and> digits_value 10 p \<le> 65535)"

definition url_parses :: "string \<Rightarrow> bool" where
  "url_parses u = (case url_port u of None \<Rightarrow> True | Some p \<Rightarrow> valid_port p)"

definition fetch_result_of :: "net \<Rightarrow> nat \<Rightarrow> request \<Rightarrow> fetch_result" where
  "fetch_result_of net n req =
     (if url_parses (req_url req) then net n req
      else Rejected (''Failed to execute 'fetch' on 'Window': Failed to parse URL from ''
                     @ req_url req))"

section \<open>The widget's state\<close>

text \<open>
  A message is the \<open>div\<close> that \<open>addMessage\<close> appends to \<open>#messages\<close>: its class and
  the text of its content child.
\<close>

record message =
  m_className :: string
  m_textContent :: string

datatype event = FetchCalled request | MessageAppended message

datatype task = LoadFilesTask

text \<open>
  The page and the DOM nodes the widget touches (all present in the page), the pending
  timers, and a log of the calls of \<open>fetch\<close> and the appended messages in the order they
  happen. Console output and scrolling are not part of the state.
\<close>

record state =
  location_port :: string
  window_BACKEND_URL :: "string option"
  messages :: "message list"
  input_value :: string
  status_textContent :: string
  status_className :: string
  sendButton_disabled :: bool
  sendText_display :: string
  loading_display :: string
  filesList_innerHTML :: string
  timeouts :: "(task \<times> nat) list"
  log :: "event list"

text \<open>
  An asynchronous method runs to its end and either completes or throws (its promise
  rejects), in both cases leaving a state.
\<close>

datatype outcome = Done state | Thrown string state

definition and_then :: "outcome \<Rightarrow> (state \<Rightarrow> outcome) \<Rightarrow> outcome" where
  "and_then m f = (case m of Done s \<Rightarrow> f s | Thrown e s \<Rightarrow> Thrown e s)"

definition try_catch :: "outcome \<Rightarrow> (string \<Rightarrow> state \<Rightarrow> outcome) \<Rightarrow> outcome" where
  "try_catch m h = (case m of Done s \<Rightarrow> Done s | Thrown e s \<Rightarrow> h e s)"

definition try_finally :: "outcome \<Rightarrow> (state \<Rightarrow> outcome) \<Rightarrow> outcome" where
  "try_finally m f =
     (case m of
        Done s \<Rightarrow> f s
      | Thrown e s \<Rightarrow> (case f s of Done s' \<Rightarrow> Thrown e s' | Thrown e' s' \<Rightarrow> Thrown e' s'))"

text \<open>
  \<open>await fetch(...)\<close>: the call is logged, and its result is what the parameter gives
  for the number of calls made before it.
\<close>

fun is_fetch :: "event \<Rightarrow> bool" where
  "is_fetch (FetchCalled _) = True"
| "is_fetch (MessageAppended _) = False"

definition nfetch :: "state \<Rightarrow> nat" where
  "nfetch s = length (filter is_fetch (log s))"

definition fetch :: "net \<Rightarrow> request \<Rightarrow> state \<Rightarrow> fetch_result \<times> state" where
  "fetch net req s =
     (fetch_result_of net (nfetch s) req, s\<lparr>log := log s @ [FetchCalled req]\<rparr>)"

definition get_request :: "string \<Rightarrow> request" where
  "get_request u = \<lparr>req_method = ''GET'', req_url = u, req_headers = [], req_body = None\<rparr>"

section \<open>The methods of \<open>AgentChat\<close>\<close>

text \<open>The constant \<open>BACKEND_URL\<close> (line 14), computed once from the page's port.\<close>

definition BACKEND_URL :: "state \<Rightarrow> string" where
  "BACKEND_URL s = getBackendUrl (location_port s)"

text \<open>\<open>getBackendUrl()\<close> of the class (lines 92-94): \<open>window.BACKEND_URL || BACKEND_URL\<close>.\<close>

definition AgentChat_getBackendUrl :: "state \<Rightarrow> string" where
  "AgentChat_getBackendUrl s =
     (case window_BACKEND_URL s of
        None \<Rightarrow> BACKEND_URL s
      | Some u \<Rightarrow> if u \<noteq> [] then u else BACKEND_URL s)"

definition updateStatus :: "string \<Rightarrow> string \<Rightarrow> state \<Rightarrow> state" where
  "updateStatus text className s =
     s\<lparr>status_textContent := text, status_className := ''status '' @ className\<rparr>"

definition green_circle :: string where
  "green_circle = [CHR 0xF0, CHR 0x9F, CHR 0x9F, CHR 0xA2]"

definition red_circle :: string where
  "red_circle = [CHR 0xF0, CHR 0x9F, CHR 0x94, CHR 0xB4]"

definition addMessage :: "jsval \<Rightarrow> string \<Rightarrow> state \<Rightarrow> outcome" where
  "addMessage content type s =
     (case to_textContent content of
        Inl e \<Rightarrow> Thrown e s
      | Inr t \<Rightarrow>
          (let messageDiv = \<lparr>m_className = ''message '' @ type, m_textContent = t\<rparr>
           in Done (s\<lparr>messages := messages s @ [messageDiv],
                      log := log s @ [MessageAppended messageDiv]\<rparr>)))"

definition setLoading :: "bool \<Rightarrow> state \<Rightarrow> state" where
  "setLoading loading s =
     (if loading
      then s\<lparr>sendButton_disabled := loading, sendText_display := ''none'',
             loading_display := ''inline''\<rparr>
      else s\<lparr>sendButton_disabled := loading, sendText_display := ''inline'',
             loading_display := ''none''\<rparr>)"

subsection \<open>Health check and discovery\<close>

text \<open>The list \<open>portsToTry\<close> (lines 64-70).\<close>

definition portsToTry :: "string \<Rightarrow> jsnum list" where
  "portsToTry port =
     (let currentPort = parseInt port
      in [num_sub currentPort (Finite 1),
          num_add currentPort (Finite 1),
          Finite 8002,
          Finite 8002, Finite 8003, Finite 8004, Finite 8005, Finite 8006, Finite 8007,
          Finite 8008])"

definition testUrl :: "jsnum \<Rightarrow> string" where
  "testUrl port = ''http://localhost:'' @ num_to_string port"

text \<open>
  The loop of \<open>tryAlternativePorts\<close> (lines 72-87) over the ports still to try, then the
  status set after it (line 89). A rejected \<open>fetch\<close> is caught and the loop goes on.
\<close>

fun try_ports :: "net \<Rightarrow> jsnum list \<Rightarrow> state \<Rightarrow> outcome" where
  "try_ports net [] s = Done (updateStatus (red_circle @ '' No Backend Found'') ''error'' s)"
| "try_ports net (port # ports) s =
     (case fetch net (get_request (testUrl port @ ''/health'')) s of
        (Rejected e, s1) \<Rightarrow> try_ports net ports s1
      | (Resolved response, s1) \<Rightarrow>
          if ok response
          then Done (updateStatus (green_circle @ '' Connected'') ''connected''
                       (s1\<lparr>window_BACKEND_URL := Some (testUrl port)\<rparr>))
          else try_ports net ports s1)"

definition tryAlternativePorts :: "net \<Rightarrow> state \<Rightarrow> outcome" where
  "tryAlternativePorts net s = try_ports net (portsToTry (location_port s)) s"

text \<open>\<open>checkBackendStatus\<close> (lines 43-61).\<close>

definition checkBackendStatus_try :: "net \<Rightarrow> state \<Rightarrow> outcome" where
  "checkBackendStatus_try net s =
     (case fetch net (get_request (BACKEND_URL s @ ''/health'')) s of
        (Rejected e, s1) \<Rightarrow> Thrown e s1
      | (Resolved response, s1) \<Rightarrow>
          if ok response
          then (case resp_json response of
                  Inl e \<Rightarrow> Thrown e s1
                | Inr data \<Rightarrow> Done (updateStatus (green_circle @ '' Connected'') ''connected'' s1))
          else Done (updateStatus (red_circle @ '' Backend Error'') ''error'' s1))"

definition checkBackendStatus :: "net \<Rightarrow> state \<Rightarrow> outcome" where
  "checkBackendStatus net s =
     try_catch (checkBackendStatus_try net s)
       (\<lambda>error s1. tryAlternativePorts net
                     (updateStatus (red_circle @ '' Disconnected'') ''error'' s1))"

subsection \<open>The list of files\<close>

definition nl :: string where
  "nl = [CHR 0x0A]"

definition spaces :: "nat \<Rightarrow> string" where
  "spaces n = replicate n (CHR '' '')"

definition no_files_html :: string where
  \<open>no_files_html = ''<p class="no-files">No files generated yet</p>''\<close>

text \<open>The template of one row (lines 189-199), \<open>name\<close> being \<open>file.filename\<close> as a string.\<close>

definition file_item_html :: "string \<Rightarrow> string \<Rightarrow> string" where
  \<open>file_item_html backendUrl name =
     concat
       [nl, spaces 12, ''<div class="file-item">'',
        nl, spaces 16, ''<span class="file-name" title="'', name, ''">'', name, ''</span>'',
        nl, spaces 16, ''<a href="'', backendUrl, ''/files/'', name, ''" '',
        nl, spaces 19, ''class="download-btn" '',
        nl, spaces 19, ''download="'', name, ''"'',
        nl, spaces 19, ''target="_blank">'',
        nl, spaces 19, [CHR 0xE2, CHR 0xAC, CHR 0x87, CHR 0xEF, CHR 0xB8, CHR 0x8F], '' Download'',
        nl, spaces 16, ''</a>'',
        nl, spaces 12, ''</div>'',
        nl, spaces 8]\<close>

definition file_item :: "string \<Rightarrow> jsval \<Rightarrow> string throws" where
  "file_item backendUrl file =
     (case js_get file ''filename'' of
        Inl e \<Rightarrow> Inl e
      | Inr filename \<Rightarrow>
          (case to_string filename of
             Inl e \<Rightarrow> Inl e
           | Inr name \<Rightarrow> Inr (file_item_html backendUrl name)))"

text \<open>\<open>Array.prototype.map\<close> with a callback that can throw: the first throw ends it.\<close>

fun map_throws :: "('a \<Rightarrow> 'b throws) \<Rightarrow> 'a list \<Rightarrow> 'b list throws" where
  "map_throws f [] = Inr []"
| "map_throws f (x # xs) =
     (case f x of
        Inl e \<Rightarrow> Inl e
      | Inr y \<Rightarrow> (case map_throws f xs of Inl e \<Rightarrow> Inl e | Inr ys \<Rightarrow> Inr (y # ys)))"

text \<open>\<open>displayFiles\<close> (lines 180-200). Only an array has a \<open>map\<close> to call.\<close>

definition displayFiles :: "jsval \<Rightarrow> state \<Rightarrow> outcome" where
  "displayFiles files s =
     (case js_get files ''length'' of
        Inl e \<Rightarrow> Thrown e s
      | Inr len \<Rightarrow>
          if len = JNum (Finite 0) then Done (s\<lparr>filesList_innerHTML := no_files_html\<rparr>)
          else
            (let backendUrl = AgentChat_getBackendUrl s
             in case files of
                  JArr xs \<Rightarrow>
                    (case map_throws (file_item backendUrl) xs of
                       Inl e \<Rightarrow> Thrown e s
                     | Inr rows \<Rightarrow> Done (s\<lparr>filesList_innerHTML := concat rows\<rparr>))
                | _ \<Rightarrow> Thrown ''files.map is not a function'' s))"

text \<open>\<open>loadFiles\<close> (lines 167-178): the \<open>catch\<close> only writes to the console.\<close>

definition loadFiles_try :: "net \<Rightarrow> state \<Rightarrow> outcome" where
  "loadFiles_try net s =
     (let backendUrl = AgentChat_getBackendUrl s
      in case fetch net (get_request (backendUrl @ ''/files'')) s of
           (Rejected e, s1) \<Rightarrow> Thrown e s1
         | (Resolved response, s1) \<Rightarrow>
             (case resp_json response of
                Inl e \<Rightarrow> Thrown e s1
              | Inr result \<Rightarrow>
                  (case js_get result ''files'' of
                     Inl e \<Rightarrow> Thrown e s1
                   | Inr files \<Rightarrow> displayFiles (js_or files (JArr [])) s1)))"

definition loadFiles :: "net \<Rightarrow> state \<Rightarrow> outcome" where
  "loadFiles net s = try_catch (loadFiles_try net s) (\<lambda>error s1. Done s1)"

subsection \<open>Sending a message\<close>

definition query_request :: "string \<Rightarrow> string \<Rightarrow> request" where
  "query_request backendUrl message =
     \<lparr>req_method = ''POST'',
      req_url = backendUrl @ ''/query'',
      req_headers = [(''Content-Type'', ''application/json'')],
      req_body = Some (JObj [(''prompt'', JStr message), (''max_turns'', JNum (Finite 20))])\<rparr>"

definition setTimeout :: "task \<Rightarrow> nat \<Rightarrow> state \<Rightarrow> state" where
  "setTimeout t delay s = s\<lparr>timeouts := timeouts s @ [(t, delay)]\<rparr>"

text \<open>The \<open>try\<close> block of \<open>sendMessage\<close> (lines 110-131).\<close>

definition sendMessage_try :: "net \<Rightarrow> string \<Rightarrow> state \<Rightarrow> outcome" where
  "sendMessage_try net message s =
     (let backendUrl = AgentChat_getBackendUrl s
      in case fetch net (query_request backendUrl message) s of
           (Rejected e, s1) \<Rightarrow> Thrown e s1
         | (Resolved response, s1) \<Rightarrow>
             (case resp_json response of
                Inl e \<Rightarrow> Thrown e s1
              | Inr result \<Rightarrow>
                  (case js_get result ''status'' of
                     Inl e \<Rightarrow> Thrown e s1
                   | Inr status \<Rightarrow>
                       if status = JStr ''success''
                       then (case js_get result ''response'' of
                               Inl e \<Rightarrow> Thrown e s1
                             | Inr r \<Rightarrow>
                                 and_then (addMessage r ''assistant'' s1)
                                   (\<lambda>s2. Done (setTimeout LoadFilesTask 2000 s2)))
                       else (case js_get result ''error'' of
                               Inl e \<Rightarrow> Thrown e s1
                             | Inr err \<Rightarrow>
                                 (case to_string (js_or err (JStr ''Unknown error'')) of
                                    Inl e \<Rightarrow> Thrown e s1
                                  | Inr detail \<Rightarrow>
                                      addMessage (JStr (''Error: '' @ detail))
                                        ''assistant error'' s1)))))"

text \<open>The \<open>catch\<close> block of \<open>sendMessage\<close> (lines 132-134).\<close>

definition sendMessage_catch :: "string \<Rightarrow> state \<Rightarrow> outcome" where
  "sendMessage_catch error s =
     and_then (addMessage (JStr (''Connection error: '' @ error)) ''assistant error'' s)
       (\<lambda>s1. Done (updateStatus (red_circle @ '' Connection Error'') ''error'' s1))"

text \<open>\<open>sendMessage\<close> (lines 101-138).\<close>

definition sendMessage :: "net \<Rightarrow> state \<Rightarrow> outcome" where
  "sendMessage net s =
     (let message = trim (input_value s)
      in if message = [] then Done s
         else
           and_then (addMessage (JStr message) ''user'' s)
             (\<lambda>s1. try_finally
                     (try_catch
                        (sendMessage_try net message (setLoading True (s1\<lparr>input_value := []\<rparr>)))
                        sendMessage_catch)
                     (\<lambda>s2. Done (setLoading False s2))))"

section \<open>Terms used to state the properties\<close>

text \<open>A health probe passes when \<open>fetch\<close> resolves and \<open>response.ok\<close> holds (line 77).\<close>

definition passes :: "fetch_result \<Rightarrow> bool" where
  "passes r = (case r of Rejected e \<Rightarrow> False | Resolved response \<Rightarrow> ok response)"

definition probe :: "jsnum \<Rightarrow> request" where
  "probe port = get_request (testUrl port @ ''/health'')"

text \<open>
  The first health check, at the constant \<open>BACKEND_URL\<close> (line 46), and when the \<open>try\<close>
  block of \<open>checkBackendStatus\<close> throws on its result: \<open>fetch\<close> is rejected, or the
  response is ok and its body does not parse (line 48).
\<close>

definition primary_request :: "state \<Rightarrow> request" where
  "primary_request s = get_request (BACKEND_URL s @ ''/health'')"

definition primary_throws :: "fetch_result \<Rightarrow> bool" where
  "primary_throws r =
     (case r of
        Rejected e \<Rightarrow> True
      | Resolved response \<Rightarrow>
          ok response \<and> (case resp_json response of Inl e \<Rightarrow> True | Inr data \<Rightarrow> False))"

text \<open>The reply that the test of line 125 accepts.\<close>

definition success_reply :: "fetch_result \<Rightarrow> bool" where
  "success_reply r =
     (case r of
        Rejected e \<Rightarrow> False
      | Resolved response \<Rightarrow>
          (case resp_json response of
             Inl e \<Rightarrow> False
           | Inr result \<Rightarrow> js_get result ''status'' = Inr (JStr ''success'')))"

definition user_message :: "string \<Rightarrow> message" where
  "user_message t = \<lparr>m_className = ''message user'', m_textContent = t\<rparr>"

definition assistant_message :: "string \<Rightarrow> message" where
  "assistant_message t = \<lparr>m_className = ''message assistant'', m_textContent = t\<rparr>"

definition error_message :: "string \<Rightarrow> message" where
  "error_message t = \<lparr>m_className = ''message assistant error'', m_textContent = t\<rparr>"

text \<open>
  The state in which \<open>sendMessage\<close> enters its \<open>try\<close> block: the user's message is
  appended, the input is cleared and the send control is disabled (lines 105-107).
\<close>

definition echoed :: "state \<Rightarrow> state" where
  "echoed s =
     setLoading True
       (s\<lparr>messages := messages s @ [user_message (trim (input_value s))],
          log := log s @ [MessageAppended (user_message (trim (input_value s)))],
          input_value := []\<rparr>)"

text \<open>The request that \<open>sendMessage\<close> issues from a state.\<close>

definition query_of :: "state \<Rightarrow> request" where
  "query_of s = query_request (AgentChat_getBackendUrl s) (trim (input_value s))"

text \<open>
  What a call of \<open>sendMessage\<close> shows for a reply: it completes, it has appended the
  user's message and one more message, in this order, and between the two it has called
  \<open>fetch\<close> once.
\<close>

definition shown :: "net \<Rightarrow> state \<Rightarrow> message \<Rightarrow> bool" where
  "shown net s m =
     (\<exists>s'. sendMessage net s = Done s'
        \<and> messages s' = messages s @ [user_message (trim (input_value s)), m]
        \<and> log s' = log s @ [MessageAppended (user_message (trim (input_value s))),
                            FetchCalled (query_of s),
                            MessageAppended m])"

text \<open>
  A session after the page has loaded: the user submits a text (types it, then the form's
  \<open>submit\<close> or Enter calls \<open>sendMessage\<close>), or the file list is refreshed (the refresh
  button or the timer set by \<open>sendMessage\<close> calls \<open>loadFiles\<close>). Each call runs to its
  end before the next one starts. The constructor's own calls of \<open>loadFiles\<close> and
  \<open>checkBackendStatus\<close> come before the session.
\<close>

datatype action = Submit string | RefreshFiles

definition settle :: "outcome \<Rightarrow> state" where
  "settle r = (case r of Done s \<Rightarrow> s | Thrown e s \<Rightarrow> s)"

fun step :: "net \<Rightarrow> action \<Rightarrow> state \<Rightarrow> state" where
  "step net (Submit text) s = settle (sendMessage net (s\<lparr>input_value := text\<rparr>))"
| "step net RefreshFiles s = settle (loadFiles net s)"

fun run :: "net \<Rightarrow> action list \<Rightarrow> state \<Rightarrow> state" where
  "run net [] s = s"
| "run net (a # as) s = run net as (step net a s)"

text \<open>The request that \<open>loadFiles\<close> issues from a state.\<close>

definition files_request :: "state \<Rightarrow> request" where
  "files_request s = get_request (AgentChat_getBackendUrl s @ ''/files'')"

text \<open>A request is a health check when its URL ends in \<open>/health\<close>.\<close>

definition health_check :: "request \<Rightarrow> bool" where
  "health_check req = (take 7 (rev (req_url req)) = rev ''/health'')"

text \<open>The requests among the events that a later state has logged since an earlier one.\<close>

fun requests_of :: "event list \<Rightarrow> request list" where
  "requests_of [] = []"
| "requests_of (FetchCalled req # es) = req # requests_of es"
| "requests_of (MessageAppended m # es) = requests_of es"

definition requests_since :: "state \<Rightarrow> state \<Rightarrow> request list" where
  "requests_since s s' = requests_of (drop (length (log s)) (log s'))"

text \<open>
  A later state \<open>s'\<close> has reused the endpoint of \<open>s\<close>: the page's port and
  \<open>window.BACKEND_URL\<close> are as in \<open>s\<close>; the log of \<open>s\<close> has only been extended, every
  request since going to \<open>/query\<close> or \<open>/files\<close> at the endpoint of \<open>s\<close>; and the list
  of files is as in \<open>s\<close>, or empty, or made of rows whose links start with the endpoint
  of \<open>s\<close>.
\<close>

definition reuses :: "state \<Rightarrow> state \<Rightarrow> bool" where
  "reuses s s' =
     (location_port s' = location_port s
      \<and> window_BACKEND_URL s' = window_BACKEND_URL s
      \<and> (\<exists>es. log s' = log s @ es
            \<and> list_all (\<lambda>req. req_url req = AgentChat_getBackendUrl s @ ''/query''
                               \<or> req_url req = AgentChat_getBackendUrl s @ ''/files'')
                 (requests_of es))
      \<and> (filesList_innerHTML s' = filesList_innerHTML s
          \<or> filesList_innerHTML s' = no_files_html
          \<or> (\<exists>names. filesList_innerHTML s' =
                 concat (map (file_item_html (AgentChat_getBackendUrl s)) names))))"

text \<open>Example pages and backends.\<close>

definition example_page :: "string \<Rightarrow> string \<Rightarrow> state" where
  "example_page port text =
     \<lparr>location_port = port, window_BACKEND_URL = None, messages = [], input_value = text,
      status_textContent = [], status_className = ''status'', sendButton_disabled = False,
      sendText_display = ''inline'', loading_display = ''none'', filesList_innerHTML = [],
      timeouts = [], log = []\<rparr>"

text \<open>
  Inputs: blank by a space, U+00A0, U+3000 and a tab; and \<open>hello\<close> between a space and
  U+00A0.
\<close>

definition blank_input :: string where
  "blank_input = [CHR 0x20, CHR 0xC2, CHR 0xA0, CHR 0xE3, CHR 0x80, CHR 0x80, CHR 0x09]"

definition padded_hello :: string where
  "padded_hello = '' hello'' @ [CHR 0xC2, CHR 0xA0]"

definition hi_reply :: jsval where
  "hi_reply = JObj [(''status'', JStr ''success''), (''response'', JStr ''hi'')]"

definition boom_reply :: jsval where
  "boom_reply = JObj [(''status'', JStr ''error''), (''error'', JStr ''boom'')]"

definition listing_reply :: jsval where
  "listing_reply = JObj [(''files'', JArr [JObj [(''filename'', JStr ''a.txt'')]])]"

definition empty_listing :: jsval where
  "empty_listing = JObj [(''files'', JArr [])]"

text \<open>A backend whose first reply is \<open>a\<close> and whose later replies are \<open>b\<close>.\<close>

definition net_first :: "fetch_result \<Rightarrow> fetch_result \<Rightarrow> net" where
  "net_first a b n req = (if n = 0 then a else b)"

text \<open>The reply with an empty body: \<open>response.json()\<close> throws on it.\<close>

definition empty_body :: fetch_result where
  "empty_body =
     Resolved \<lparr>resp_status = 200, resp_json = Inl ''Unexpected end of JSON input''\<rparr>"

definition net_down :: net where
  "net_down n req = Rejected ''Failed to fetch''"

definition net_reply :: "nat \<Rightarrow> jsval throws \<Rightarrow> net" where
  "net_reply code b n req = Resolved \<lparr>resp_status = code, resp_json = b\<rparr>"

definition net_only :: "string \<Rightarrow> net" where
  "net_only u n req =
     (if req_url req = u @ ''/health''
      then Resolved \<lparr>resp_status = 200, resp_json = Inr (JObj [(''status'', JStr ''healthy'')])\<rparr>
      else Rejected ''Failed to fetch'')"

definition healthy_reply :: fetch_result where
  "healthy_reply =
     Resolved \<lparr>resp_status = 200, resp_json = Inr (JObj [(''status'', JStr ''healthy'')])\<rparr>"

text \<open>
  A backend that answers the health check at \<open>bad\<close> with status 503 and is healthy at
  \<open>good\<close>.
\<close>

definition net_ill :: "string \<Rightarrow> string \<Rightarrow> net" where
  "net_ill bad good n req =
     (if req_url req = bad @ ''/health''
      then Resolved \<lparr>resp_status = 503, resp_json = Inr (JObj [(''status'', JStr ''unavailable'')])\<rparr>
      else net_only good n req)"

text \<open>A backend that answers the first call as healthy and is down from then on.\<close>

definition net_then_down :: net where
  "net_then_down = net_first healthy_reply (Rejected ''Failed to fetch'')"

text \<open>
  The page on port 3001 after \<open>checkBackendStatus\<close> has validated the endpoint: at the
  first health check, and through discovery at port 8003.
\<close>

definition validated_page :: state where
  "validated_page =
     updateStatus (green_circle @ '' Connected'') ''connected''
       ((example_page ''3001'' [])
          \<lparr>log := [FetchCalled (get_request ''http://localhost:3000/health'')]\<rparr>)"

definition discovered_page :: state where
  "discovered_page =
     updateStatus (green_circle @ '' Connected'') ''connected''
       ((example_page ''3001'' [])
          \<lparr>log := FetchCalled (get_request ''http://localhost:3000/health'')
                   # map (\<lambda>p. FetchCalled (probe p))
                       [Finite 3000, Finite 3002, Finite 8002, Finite 8002, Finite 8003],
           window_BACKEND_URL := Some ''http://localhost:8003''\<rparr>)"

section \<open>Properties\<close>

subsection \<open>Numerals\<close>

lemma digit_cases: "d < 10 \<Longrightarrow> d \<in> {0, 1, 2, 3, 4, 5, 6, 7, 8, 9::nat}"
  by auto

lemma digit_val_digit_char: "d < 10 \<Longrightarrow> digit_val (digit_char d) = d"
  using digit_cases [of d] by (auto simp: digit_val_def digit_char_def)

lemma is_digit_digit_char: "d < 10 \<Longrightarrow> is_digit (digit_char d)"
  using digit_cases [of d] by (auto simp: is_digit_def digit_char_def)

lemma digits_nat_to_string: "list_all is_digit (nat_to_string n)"
proof (induction n rule: nat_to_string.induct)
  case (1 n)
  show ?case
  proof (cases "n < 10")
    case True
    then show ?thesis by (subst nat_to_string.simps) (simp add: is_digit_digit_char)
  next
    case False
    with 1 show ?thesis by (subst nat_to_string.simps) (simp add: is_digit_digit_char)
  qed
qed

lemma value_nat_to_string: "digits_value 10 (nat_to_string n) = n"
proof (induction n rule: nat_to_string.induct)
  case (1 n)
  show ?case
  proof (cases "n < 10")
    case True
    then show ?thesis
      by (subst nat_to_string.simps) (simp add: digits_value_def digit_val_digit_char)
  next
    case False
    with 1 have "digits_value 10 (nat_to_string (n div 10)) = n div 10" by simp
    then show ?thesis using False
      by (subst nat_to_string.simps) (simp add: digits_value_def digit_val_digit_char)
  qed
qed

lemma nat_to_string_nonempty: "nat_to_string n \<noteq> []"
  by (subst nat_to_string.simps) simp

text \<open>Unfolding \<open>nat_to_string\<close> on numerals only.\<close>

lemma nat_to_string_eval:
  "nat_to_string 0 = ''0''"
  "nat_to_string 1 = ''1''"
  "nat_to_string (numeral k) =
     (if (numeral k :: nat) < 10 then [digit_char (numeral k)]
      else nat_to_string (numeral k div 10) @ [digit_char (numeral k mod 10)])"
  by (subst nat_to_string.simps, simp add: digit_char_def)+

lemmas ws_defs = trim_def trimStart_def trimEnd_def is_ws1_def is_ws2_def is_ws3_def

lemma strip_keeps:
  assumes "\<not> is_ws1 a" and "\<And>b. \<not> w2 a b" and "\<And>b c. \<not> w3 a b c"
  shows "strip w2 w3 (a # s) = a # s"
proof (cases s)
  case Nil
  with assms show ?thesis by simp
next
  case (Cons b r)
  with assms show ?thesis by (cases r) simp_all
qed

text \<open>\<open>trim\<close> on white space beyond ASCII, and on bytes that only resemble it.\<close>

lemma trim_examples:
  "trim [CHR 0xC2, CHR 0xA0] = []"
  "trim (''hello'' @ [CHR 0xC2, CHR 0xA0]) = ''hello''"
  "trim ([CHR 0xE3, CHR 0x80, CHR 0x80] @ ''a b'' @ [CHR 0xEF, CHR 0xBB, CHR 0xBF, CHR 0x0A]) = ''a b''"
  "trim [CHR 0x20, CHR 0xE2, CHR 0x80, CHR 0xA8, CHR 0xE2, CHR 0x81, CHR 0x9F,
         CHR 0xE1, CHR 0x9A, CHR 0x80, CHR 0x09] = []"
  "trim [CHR 0xC3, CHR 0xA0] = [CHR 0xC3, CHR 0xA0]"
  "trim [CHR 0xE2, CHR 0x80, CHR 0x8B] = [CHR 0xE2, CHR 0x80, CHR 0x8B]"
  "trim ''  hello  world  '' = ''hello  world''"
  by (simp_all add: ws_defs)

lemma parse_unsigned_digits:
  assumes "list_all is_digit s" and "s \<noteq> []"
  shows "parse_unsigned sign s = Finite (sign * int (digits_value 10 s))"
proof -
  have tw: "takeWhile is_digit s = s"
    using assms(1) by (simp add: takeWhile_eq_all_conv list_all_iff)
  have nx: "take 2 s \<noteq> ''0x'' \<and> take 2 s \<noteq> ''0X''"
  proof (cases s)
    case Nil
    then show ?thesis by simp
  next
    case (Cons a r)
    show ?thesis
    proof (cases r)
      case Nil
      with Cons show ?thesis by simp
    next
      case (Cons b r')
      with \<open>s = a # r\<close> assms(1) have "is_digit b" by simp
      then have "b \<noteq> CHR ''x'' \<and> b \<noteq> CHR ''X''" by (auto simp: is_digit_def)
      with Cons \<open>s = a # r\<close> show ?thesis by simp
    qed
  qed
  show ?thesis by (simp add: parse_unsigned_def parse_digits_def tw nx assms(2))
qed

lemma parseInt_digits:
  assumes "list_all is_digit s" and "s \<noteq> []"
  shows "parseInt s = Finite (int (digits_value 10 s))"
proof -
  obtain c r where s: "s = c # r" using assms(2) by (cases s) auto
  with assms(1) have d: "is_digit c" by simp
  then have "trimStart (c # r) = c # r" "c \<noteq> CHR ''-''" "c \<noteq> CHR ''+''"
    by (auto simp: is_digit_def trimStart_def is_ws1_def is_ws2_def is_ws3_def
        intro!: strip_keeps)
  then show ?thesis
    using parse_unsigned_digits [OF assms, of 1] by (simp add: parseInt_def s)
qed

lemma parseInt_nat_to_string: "parseInt (nat_to_string n) = Finite (int n)"
  by (simp add: parseInt_digits digits_nat_to_string nat_to_string_nonempty value_nat_to_string)

lemma parseInt_empty: "parseInt [] = NaN"
  by (simp add: parseInt_def trimStart_def)

text \<open>
  Claim C2. For a page served on port \<open>P > 0\<close>, whose \<open>location.port\<close> is the decimal
  numeral of \<open>P\<close>, the global \<open>getBackendUrl\<close> gives the base URL with port \<open>P - 1\<close>;
  for a page with no port it gives the fixed port 8002. The result is a function of the
  port string alone.
\<close>

theorem getBackendUrl_port:
  "(0 < P \<longrightarrow> getBackendUrl (nat_to_string P) = ''http://localhost:'' @ nat_to_string (P - 1))
   \<and> getBackendUrl [] = ''http://localhost:8002''"
proof -
  have "getBackendUrl (nat_to_string P) = ''http://localhost:'' @ nat_to_string (P - 1)" if "0 < P"
  proof -
    have "int P - 1 = int (P - 1)" using that by simp
    then show ?thesis
      by (simp add: getBackendUrl_def nat_to_string_nonempty parseInt_nat_to_string
          num_to_string_def del: of_nat_diff)
  qed
  moreover have "getBackendUrl [] = ''http://localhost:8002''"
    by (simp add: getBackendUrl_def)
  ultimately show ?thesis by blast
qed

theorem getBackendUrl_port_witness:
  "0 < (3000::nat) \<and> getBackendUrl ''3000'' = ''http://localhost:2999''"
  using getBackendUrl_port [of 3000] by (simp add: nat_to_string_eval digit_char_def)

subsection \<open>Sending a message\<close>

lemma endpoint_frame:
  "AgentChat_getBackendUrl (s\<lparr>messages := a\<rparr>) = AgentChat_getBackendUrl s"
  "AgentChat_getBackendUrl (s\<lparr>log := b\<rparr>) = AgentChat_getBackendUrl s"
  "AgentChat_getBackendUrl (s\<lparr>input_value := c\<rparr>) = AgentChat_getBackendUrl s"
  "AgentChat_getBackendUrl (s\<lparr>timeouts := d\<rparr>) = AgentChat_getBackendUrl s"
  "AgentChat_getBackendUrl (s\<lparr>filesList_innerHTML := e\<rparr>) = AgentChat_getBackendUrl s"
  "AgentChat_getBackendUrl (setLoading l s) = AgentChat_getBackendUrl s"
  "AgentChat_getBackendUrl (updateStatus x y s) = AgentChat_getBackendUrl s"
  "AgentChat_getBackendUrl (setTimeout t n s) = AgentChat_getBackendUrl s"
  by (simp_all add: AgentChat_getBackendUrl_def BACKEND_URL_def setLoading_def
      updateStatus_def setTimeout_def split: option.split)

lemma addMessage_string:
  "addMessage (JStr t) type s =
     Done (s\<lparr>messages := messages s @ [\<lparr>m_className = ''message '' @ type, m_textContent = t\<rparr>],
             log := log s @ [MessageAppended \<lparr>m_className = ''message '' @ type, m_textContent = t\<rparr>]\<rparr>)"
  by (simp add: addMessage_def to_textContent_def Let_def)

lemma sendMessage_empty: "trim (input_value s) = [] \<Longrightarrow> sendMessage net s = Done s"
  by (simp add: sendMessage_def)

lemma sendMessage_nonempty:
  "trim (input_value s) \<noteq> [] \<Longrightarrow>
   sendMessage net s =
     try_finally (try_catch (sendMessage_try net (trim (input_value s)) (echoed s)) sendMessage_catch)
       (\<lambda>s2. Done (setLoading False s2))"
  by (simp add: sendMessage_def Let_def addMessage_string and_then_def echoed_def user_message_def)

lemma echoed_endpoint: "AgentChat_getBackendUrl (echoed s) = AgentChat_getBackendUrl s"
  by (simp add: echoed_def endpoint_frame)

lemma echoed_nfetch: "nfetch (echoed s) = nfetch s"
  by (simp add: echoed_def nfetch_def setLoading_def)

lemma fetch_echoed:
  "fetch net (query_request (AgentChat_getBackendUrl (echoed s)) (trim (input_value s))) (echoed s) =
     (fetch_result_of net (nfetch s) (query_of s), (echoed s)\<lparr>log := log (echoed s) @ [FetchCalled (query_of s)]\<rparr>)"
  by (simp add: fetch_def echoed_endpoint echoed_nfetch query_of_def)

lemma sendMessage_catch_done:
  "sendMessage_catch e s =
     Done (updateStatus (red_circle @ '' Connection Error'') ''error''
       (s\<lparr>messages := messages s @ [error_message (''Connection error: '' @ e)],
          log := log s @ [MessageAppended (error_message (''Connection error: '' @ e))]\<rparr>))"
  by (simp add: sendMessage_catch_def addMessage_string and_then_def error_message_def)

lemma sendMessage_try_answer:
  assumes "fetch_result_of net (nfetch s) (query_of s) = Resolved response"
    and "resp_json response = Inr result"
    and "js_get result ''status'' = Inr (JStr ''success'')"
    and "js_get result ''response'' = Inr r"
    and "to_textContent r = Inr t"
  shows "sendMessage_try net (trim (input_value s)) (echoed s) =
      Done (setTimeout LoadFilesTask 2000
        ((echoed s)\<lparr>log := log (echoed s) @ [FetchCalled (query_of s)],
            messages := messages (echoed s) @ [assistant_message t],
            log := log (echoed s) @ [FetchCalled (query_of s), MessageAppended (assistant_message t)]\<rparr>))"
  using assms
  by (simp add: sendMessage_try_def fetch_echoed addMessage_def and_then_def
      assistant_message_def Let_def)

lemma sendMessage_try_rejected:
  assumes "fetch_result_of net (nfetch s) (query_of s) = Rejected e"
  shows "sendMessage_try net (trim (input_value s)) (echoed s) =
      Thrown e ((echoed s)\<lparr>log := log (echoed s) @ [FetchCalled (query_of s)]\<rparr>)"
  using assms by (simp add: sendMessage_try_def fetch_echoed Let_def)

lemma sendMessage_try_unparsed:
  assumes "fetch_result_of net (nfetch s) (query_of s) = Resolved response"
    and "resp_json response = Inl e"
  shows "sendMessage_try net (trim (input_value s)) (echoed s) =
      Thrown e ((echoed s)\<lparr>log := log (echoed s) @ [FetchCalled (query_of s)]\<rparr>)"
  using assms by (simp add: sendMessage_try_def fetch_echoed Let_def)

lemma sendMessage_try_no_status:
  assumes "fetch_result_of net (nfetch s) (query_of s) = Resolved response"
    and "resp_json response = Inr result"
    and "js_get result ''status'' = Inl e"
  shows "sendMessage_try net (trim (input_value s)) (echoed s) =
      Thrown e ((echoed s)\<lparr>log := log (echoed s) @ [FetchCalled (query_of s)]\<rparr>)"
  using assms by (simp add: sendMessage_try_def fetch_echoed Let_def)

lemma js_get_defined: "js_get v p = Inr x \<Longrightarrow> \<exists>y. js_get v q = Inr y"
  by (cases v) (simp_all add: js_get_def)

lemma sendMessage_try_other:
  assumes "fetch_result_of net (nfetch s) (query_of s) = Resolved response"
    and "resp_json response = Inr result"
    and "js_get result ''status'' = Inr st" and "st \<noteq> JStr ''success''"
    and "js_get result ''error'' = Inr err"
  shows "sendMessage_try net (trim (input_value s)) (echoed s) =
      (case to_string (js_or err (JStr ''Unknown error'')) of
         Inl e \<Rightarrow> Thrown e ((echoed s)\<lparr>log := log (echoed s) @ [FetchCalled (query_of s)]\<rparr>)
       | Inr d \<Rightarrow>
           Done ((echoed s)\<lparr>log := log (echoed s) @ [FetchCalled (query_of s)],
              messages := messages (echoed s) @ [error_message (''Error: '' @ d)],
              log := log (echoed s) @ [FetchCalled (query_of s),
                                       MessageAppended (error_message (''Error: '' @ d))]\<rparr>))"
  using assms
  by (simp add: sendMessage_try_def fetch_echoed Let_def addMessage_string error_message_def
      split: sum.split)

lemma shown_answer:
  assumes "trim (input_value s) \<noteq> []"
    and "fetch_result_of net (nfetch s) (query_of s) = Resolved response"
    and "resp_json response = Inr result"
    and "js_get result ''status'' = Inr (JStr ''success'')"
    and "js_get result ''response'' = Inr r"
    and "to_textContent r = Inr t"
  shows "shown net s (assistant_message t)"
proof -
  have "sendMessage net s = Done (setLoading False (setTimeout LoadFilesTask 2000
        ((echoed s)\<lparr>log := log (echoed s) @ [FetchCalled (query_of s)],
            messages := messages (echoed s) @ [assistant_message t],
            log := log (echoed s) @ [FetchCalled (query_of s), MessageAppended (assistant_message t)]\<rparr>)))"
    by (simp add: sendMessage_nonempty [OF assms(1)] sendMessage_try_answer [OF assms(2-6)]
        try_catch_def try_finally_def)
  then show ?thesis
    by (simp add: shown_def setLoading_def setTimeout_def echoed_def)
qed

lemma shown_after_throw:
  assumes "trim (input_value s) \<noteq> []"
    and "sendMessage_try net (trim (input_value s)) (echoed s) =
      Thrown e ((echoed s)\<lparr>log := log (echoed s) @ [FetchCalled (query_of s)]\<rparr>)"
  shows "shown net s (error_message (''Connection error: '' @ e))"
proof -
  have "sendMessage net s = Done (setLoading False
     (updateStatus (red_circle @ '' Connection Error'') ''error''
       ((echoed s)\<lparr>log := log (echoed s) @ [FetchCalled (query_of s)],
          messages := messages (echoed s) @ [error_message (''Connection error: '' @ e)],
          log := log (echoed s) @ [FetchCalled (query_of s),
                   MessageAppended (error_message (''Connection error: '' @ e))]\<rparr>)))"
    by (simp add: sendMessage_nonempty [OF assms(1)] assms(2) try_catch_def try_finally_def
        sendMessage_catch_done)
  then show ?thesis
    by (simp add: shown_def setLoading_def updateStatus_def echoed_def)
qed

lemma shown_after_error:
  assumes "trim (input_value s) \<noteq> []"
    and "sendMessage_try net (trim (input_value s)) (echoed s) =
      Done ((echoed s)\<lparr>log := log (echoed s) @ [FetchCalled (query_of s)],
              messages := messages (echoed s) @ [error_message d],
              log := log (echoed s) @ [FetchCalled (query_of s),
                                       MessageAppended (error_message d)]\<rparr>)"
  shows "shown net s (error_message d)"
proof -
  have "sendMessage net s = Done (setLoading False
       ((echoed s)\<lparr>log := log (echoed s) @ [FetchCalled (query_of s)],
              messages := messages (echoed s) @ [error_message d],
              log := log (echoed s) @ [FetchCalled (query_of s),
                                       MessageAppended (error_message d)]\<rparr>))"
    by (simp add: sendMessage_nonempty [OF assms(1)] assms(2) try_catch_def try_finally_def)
  then show ?thesis
    by (simp add: shown_def setLoading_def echoed_def)
qed

lemma shown_other:
  assumes "trim (input_value s) \<noteq> []"
    and "fetch_result_of net (nfetch s) (query_of s) = Resolved response"
    and "resp_json response = Inr result"
    and "js_get result ''status'' = Inr st" and "st \<noteq> JStr ''success''"
    and "js_get result ''error'' = Inr err"
  shows "shown net s (error_message
           (case to_string (js_or err (JStr ''Unknown error'')) of
              Inl e \<Rightarrow> ''Connection error: '' @ e
            | Inr d \<Rightarrow> ''Error: '' @ d))"
proof (cases "to_string (js_or err (JStr ''Unknown error''))")
  case (Inl e)
  with sendMessage_try_other [OF assms(2-6)] shown_after_throw [OF assms(1), of net e]
  show ?thesis by simp
next
  case (Inr d)
  with sendMessage_try_other [OF assms(2-6)] shown_after_error [OF assms(1), of net "''Error: '' @ d"]
  show ?thesis by simp
qed

lemmas example_defs = example_page_def net_reply_def net_down_def hi_reply_def boom_reply_def
  ws_defs nfetch_def query_of_def query_request_def fetch_result_of_def
  url_parses_def url_port_def valid_port_def is_digit_def digits_value_def digit_val_def
  AgentChat_getBackendUrl_def BACKEND_URL_def getBackendUrl_def parseInt_def
  parse_unsigned_def parse_digits_def num_to_string_def nat_to_string_eval digit_char_def
  js_get_def user_message_def assistant_message_def error_message_def

text \<open>
  Claim C8. When the input, trimmed, is empty, \<open>sendMessage\<close> completes in the state it
  started from: no call of \<open>fetch\<close>, no message, no other change.
\<close>

theorem sendMessage_blank_is_noop:
  "trim (input_value s) = [] \<Longrightarrow> sendMessage net s = Done s"
  by (simp add: sendMessage_def)

theorem sendMessage_blank_is_noop_witness:
  "trim (input_value (example_page ''3001'' blank_input)) = []
   \<and> sendMessage net_down (example_page ''3001'' blank_input)
     = Done (example_page ''3001'' blank_input)"
  using sendMessage_blank_is_noop [of "example_page ''3001'' blank_input" net_down]
  by (simp add: example_page_def blank_input_def ws_defs)

text \<open>
  Claim C1. When the trimmed input is not empty and the backend's reply parses to a value
  whose \<open>status\<close> is \<open>"success"\<close> and whose \<open>response\<close> is the string \<open>r\<close>,
  \<open>sendMessage\<close> appends exactly two messages, the user's text and then the assistant's
  \<open>r\<close>; the log shows the user's message appended before \<open>fetch\<close> is called and the
  assistant's after it.
\<close>

theorem sendMessage_success_appends_two:
  assumes "trim (input_value s) \<noteq> []"
    and "fetch_result_of net (nfetch s) (query_of s) = Resolved response"
    and "resp_json response = Inr result"
    and "js_get result ''status'' = Inr (JStr ''success'')"
    and "js_get result ''response'' = Inr (JStr r)"
  shows "\<exists>s'. sendMessage net s = Done s'
     \<and> messages s' = messages s @ [user_message (trim (input_value s)), assistant_message r]
     \<and> log s' = log s @ [MessageAppended (user_message (trim (input_value s))),
                         FetchCalled (query_of s),
                         MessageAppended (assistant_message r)]"
  using shown_answer [OF assms, of r] by (simp add: shown_def to_textContent_def)


theorem sendMessage_success_appends_two_witness:
  "trim (input_value (example_page ''3001'' padded_hello)) \<noteq> []
   \<and> fetch_result_of (net_reply 200 (Inr hi_reply)) (nfetch (example_page ''3001'' padded_hello))
        (query_of (example_page ''3001'' padded_hello))
      = Resolved \<lparr>resp_status = 200, resp_json = Inr hi_reply\<rparr>
   \<and> js_get hi_reply ''status'' = Inr (JStr ''success'')
   \<and> js_get hi_reply ''response'' = Inr (JStr ''hi'')
   \<and> (\<exists>s'. sendMessage (net_reply 200 (Inr hi_reply)) (example_page ''3001'' padded_hello) = Done s'
         \<and> messages s' = [user_message ''hello'', assistant_message ''hi'']
         \<and> log s' = [MessageAppended (user_message ''hello''),
                     FetchCalled (query_request ''http://localhost:3000'' ''hello''),
                     MessageAppended (assistant_message ''hi'')])"
  using sendMessage_success_appends_two [of "example_page ''3001'' padded_hello"
      "net_reply 200 (Inr hi_reply)" "\<lparr>resp_status = 200, resp_json = Inr hi_reply\<rparr>"
      hi_reply "''hi''"]
  by (simp add: example_defs padded_hello_def)

text \<open>
  Claim C6. When the trimmed input is not empty and the reply is not a success reply (the
  request is rejected, the body does not parse, or its \<open>status\<close> is not \<open>"success"\<close>),
  \<open>sendMessage\<close> appends, after the user's message, exactly one message of class
  \<open>assistant error\<close>, and calls \<open>fetch\<close> exactly once. Its text carries the error: the
  message of the network or parse error after \<open>Connection error: \<close>, or the reply's
  non-empty \<open>error\<close> string after \<open>Error: \<close>.
\<close>

theorem sendMessage_failure_appends_one_error:
  assumes "trim (input_value s) \<noteq> []"
    and "\<not> success_reply (fetch_result_of net (nfetch s) (query_of s))"
  shows "\<exists>d. shown net s (error_message d)
     \<and> (\<forall>e. fetch_result_of net (nfetch s) (query_of s) = Rejected e
            \<longrightarrow> d = ''Connection error: '' @ e)
     \<and> (\<forall>response e. fetch_result_of net (nfetch s) (query_of s) = Resolved response
            \<and> resp_json response = Inl e \<longrightarrow> d = ''Connection error: '' @ e)
     \<and> (\<forall>response result b. fetch_result_of net (nfetch s) (query_of s) = Resolved response
            \<and> resp_json response = Inr result \<and> js_get result ''error'' = Inr (JStr b) \<and> b \<noteq> []
            \<longrightarrow> d = ''Error: '' @ b)"
proof (cases "fetch_result_of net (nfetch s) (query_of s)")
  case (Rejected e)
  from shown_after_throw [OF assms(1) sendMessage_try_rejected [OF Rejected]] Rejected
  show ?thesis by auto
next
  case (Resolved response)
  show ?thesis
  proof (cases "resp_json response")
    case (Inl e)
    from shown_after_throw [OF assms(1) sendMessage_try_unparsed [OF Resolved Inl]] Resolved Inl
    show ?thesis by auto
  next
    case result: (Inr result)
    show ?thesis
    proof (cases "js_get result ''status''")
      case (Inl e)
      then have "js_get result ''error'' \<noteq> Inr x" for x
        using js_get_defined [of result "''error''" x "''status''"] by auto
      with shown_after_throw [OF assms(1) sendMessage_try_no_status [OF Resolved result Inl]]
        Resolved result
      show ?thesis by auto
    next
      case (Inr st)
      with assms(2) Resolved result have st: "st \<noteq> JStr ''success''"
        by (auto simp: success_reply_def)
      from js_get_defined [OF Inr] obtain err where err: "js_get result ''error'' = Inr err"
        by blast
      let ?d = "case to_string (js_or err (JStr ''Unknown error'')) of
                  Inl e \<Rightarrow> ''Connection error: '' @ e | Inr d \<Rightarrow> ''Error: '' @ d"
      have sh: "shown net s (error_message ?d)"
        by (rule shown_other [OF assms(1) Resolved result Inr st err])
      have "?d = ''Error: '' @ b" if "js_get result ''error'' = Inr (JStr b)" and "b \<noteq> []" for b
        using that err by (simp add: js_or_def truthy_def)
      with sh Resolved result show ?thesis
        by (intro exI [of _ ?d]) auto
    qed
  qed
qed

theorem sendMessage_failure_appends_one_error_witness:
  "trim (input_value (example_page ''3001'' ''hello'')) \<noteq> []
   \<and> \<not> success_reply (fetch_result_of (net_reply 200 (Inr boom_reply))
          (nfetch (example_page ''3001'' ''hello'')) (query_of (example_page ''3001'' ''hello'')))
   \<and> shown (net_reply 200 (Inr boom_reply)) (example_page ''3001'' ''hello'')
        (error_message ''Error: boom'')"
  using sendMessage_failure_appends_one_error [of "example_page ''3001'' ''hello''"
      "net_reply 200 (Inr boom_reply)"]
  by (simp add: example_defs success_reply_def)

lemma sendMessage_try_same_body:
  assumes "fetch_result_of net (nfetch s) (query_of s) = Resolved response"
    and "fetch_result_of net' (nfetch s) (query_of s) = Resolved response'"
    and "resp_json response' = resp_json response"
  shows "sendMessage_try net' (trim (input_value s)) (echoed s)
       = sendMessage_try net (trim (input_value s)) (echoed s)"
  using assms by (simp add: sendMessage_try_def fetch_echoed Let_def)

text \<open>
  Claim C9. When the body of the reply to \<open>POST /query\<close> parses, \<open>sendMessage\<close> does
  the same for every HTTP status of the reply: two replies with the same parsed body give the
  same outcome. A body whose \<open>status\<close> is \<open>"success"\<close> and whose \<open>response\<close> is the
  string \<open>r\<close> gives the assistant's message \<open>r\<close>, also under a status that is not 200;
  a body with any other \<open>status\<close> gives an error message, also under status 200.
\<close>

theorem sendMessage_classifies_by_json_status:
  assumes "trim (input_value s) \<noteq> []"
    and "fetch_result_of net (nfetch s) (query_of s) = Resolved response"
    and "resp_json response = Inr result"
  shows "(\<forall>net' response'.
            fetch_result_of net' (nfetch s) (query_of s) = Resolved response'
            \<and> resp_json response' = Inr result
            \<longrightarrow> sendMessage net' s = sendMessage net s)
     \<and> (\<forall>r. js_get result ''status'' = Inr (JStr ''success'')
            \<and> js_get result ''response'' = Inr (JStr r)
            \<longrightarrow> shown net s (assistant_message r))
     \<and> (js_get result ''status'' \<noteq> Inr (JStr ''success'')
            \<longrightarrow> (\<exists>d. shown net s (error_message d)))"
proof (intro conjI allI impI)
  fix net' response'
  assume "fetch_result_of net' (nfetch s) (query_of s) = Resolved response'
          \<and> resp_json response' = Inr result"
  with sendMessage_try_same_body [OF assms(2), of net' response'] assms(3)
  have "sendMessage_try net' (trim (input_value s)) (echoed s)
      = sendMessage_try net (trim (input_value s)) (echoed s)"
    by simp
  then show "sendMessage net' s = sendMessage net s"
    by (simp add: sendMessage_nonempty [OF assms(1)])
next
  fix r
  assume "js_get result ''status'' = Inr (JStr ''success'')
          \<and> js_get result ''response'' = Inr (JStr r)"
  then show "shown net s (assistant_message r)"
    using shown_answer [OF assms, of "JStr r" r] by (simp add: to_textContent_def)
next
  assume other: "js_get result ''status'' \<noteq> Inr (JStr ''success'')"
  show "\<exists>d. shown net s (error_message d)"
  proof (cases "js_get result ''status''")
    case (Inl e)
    from shown_after_throw [OF assms(1) sendMessage_try_no_status [OF assms(2,3) Inl]]
    show ?thesis by blast
  next
    case (Inr st)
    with other have st: "st \<noteq> JStr ''success''" by simp
    from js_get_defined [OF Inr] obtain err where err: "js_get result ''error'' = Inr err"
      by blast
    from shown_other [OF assms Inr st err] show ?thesis by blast
  qed
qed


theorem sendMessage_classifies_by_json_status_witness:
  "trim (input_value (example_page ''3001'' ''hello'')) \<noteq> []
   \<and> fetch_result_of (net_reply 500 (Inr hi_reply)) (nfetch (example_page ''3001'' ''hello''))
        (query_of (example_page ''3001'' ''hello''))
      = Resolved \<lparr>resp_status = 500, resp_json = Inr hi_reply\<rparr>
   \<and> shown (net_reply 500 (Inr hi_reply)) (example_page ''3001'' ''hello'')
        (assistant_message ''hi'')
   \<and> sendMessage (net_reply 200 (Inr hi_reply)) (example_page ''3001'' ''hello'')
      = sendMessage (net_reply 500 (Inr hi_reply)) (example_page ''3001'' ''hello'')
   \<and> fetch_result_of (net_reply 200 (Inr boom_reply)) (nfetch (example_page ''3001'' ''hello''))
        (query_of (example_page ''3001'' ''hello''))
      = Resolved \<lparr>resp_status = 200, resp_json = Inr boom_reply\<rparr>
   \<and> js_get boom_reply ''status'' \<noteq> Inr (JStr ''success'')
   \<and> (\<exists>d. shown (net_reply 200 (Inr boom_reply)) (example_page ''3001'' ''hello'')
        (error_message d))"
proof -
  have a: "trim (input_value (example_page ''3001'' ''hello'')) \<noteq> []"
    by (simp add: example_defs)
  have b: "fetch_result_of (net_reply c (Inr v)) (nfetch (example_page ''3001'' ''hello''))
        (query_of (example_page ''3001'' ''hello''))
      = Resolved \<lparr>resp_status = c, resp_json = Inr v\<rparr>" for c v
    by (simp add: example_defs)
  have r: "resp_json \<lparr>resp_status = c, resp_json = Inr v\<rparr> = Inr v" for c :: nat and v
    by simp
  have c1: "js_get hi_reply ''status'' = Inr (JStr ''success'')"
    and c2: "js_get hi_reply ''response'' = Inr (JStr ''hi'')"
    by (simp_all add: hi_reply_def js_get_def)
  have d: "js_get boom_reply ''status'' \<noteq> Inr (JStr ''success'')"
    by (simp add: boom_reply_def js_get_def)
  note hi = sendMessage_classifies_by_json_status [OF a b [of 500 hi_reply] r [of 500 hi_reply]]
  note boom = sendMessage_classifies_by_json_status [OF a b [of 200 boom_reply] r [of 200 boom_reply]]
  have 1: "shown (net_reply 500 (Inr hi_reply)) (example_page ''3001'' ''hello'')
        (assistant_message ''hi'')"
    using hi c1 c2 by blast
  have 2: "sendMessage (net_reply 200 (Inr hi_reply)) (example_page ''3001'' ''hello'')
      = sendMessage (net_reply 500 (Inr hi_reply)) (example_page ''3001'' ''hello'')"
    using hi b [of 200 hi_reply] r [of 200 hi_reply] by blast
  have 3: "\<exists>d. shown (net_reply 200 (Inr boom_reply)) (example_page ''3001'' ''hello'')
        (error_message d)"
    using boom d by blast
  from a b [of 500 hi_reply] 1 2 b [of 200 boom_reply] d 3 show ?thesis
    by (intro conjI)
qed

subsection \<open>Discovery\<close>

lemma fetch_probe:
  "fetch net (get_request (testUrl port @ ''/health'')) s =
     (fetch_result_of net (nfetch s) (probe port), s\<lparr>log := log s @ [FetchCalled (probe port)]\<rparr>)"
  by (simp add: fetch_def probe_def)

lemma try_ports_step_fail:
  assumes "\<not> passes (fetch_result_of net (nfetch s) (probe port))"
  shows "try_ports net (port # ports) s =
         try_ports net ports (s\<lparr>log := log s @ [FetchCalled (probe port)]\<rparr>)"
  using assms
  by (cases "fetch_result_of net (nfetch s) (probe port)") (simp_all add: fetch_probe passes_def)

lemma try_ports_step_pass:
  assumes "passes (fetch_result_of net (nfetch s) (probe port))"
  shows "try_ports net (port # ports) s =
         Done (updateStatus (green_circle @ '' Connected'') ''connected''
                 (s\<lparr>log := log s @ [FetchCalled (probe port)],
                    window_BACKEND_URL := Some (testUrl port)\<rparr>))"
  using assms
  by (cases "fetch_result_of net (nfetch s) (probe port)") (simp_all add: fetch_probe passes_def)

lemma nfetch_called: "nfetch (s\<lparr>log := log s @ [FetchCalled r]\<rparr>) = Suc (nfetch s)"
  by (simp add: nfetch_def)

lemma try_ports_first_success:
  assumes "k < length ports"
    and "\<forall>j<k. \<not> passes (fetch_result_of net (nfetch s + j) (probe (ports ! j)))"
    and "passes (fetch_result_of net (nfetch s + k) (probe (ports ! k)))"
  shows "try_ports net ports s =
         Done (updateStatus (green_circle @ '' Connected'') ''connected''
                 (s\<lparr>log := log s @ map (\<lambda>p. FetchCalled (probe p)) (take (Suc k) ports),
                    window_BACKEND_URL := Some (testUrl (ports ! k))\<rparr>))"
  using assms
proof (induction ports arbitrary: s k)
  case Nil
  then show ?case by simp
next
  case (Cons port ports)
  show ?case
  proof (cases k)
    case 0
    with Cons.prems(3) show ?thesis by (simp add: try_ports_step_pass del: try_ports.simps)
  next
    case (Suc k')
    let ?s1 = "s\<lparr>log := log s @ [FetchCalled (probe port)]\<rparr>"
    from Cons.prems(2) Suc have first: "\<not> passes (fetch_result_of net (nfetch s) (probe port))"
      by force
    have len: "k' < length ports" using Cons.prems(1) Suc by simp
    have before: "\<forall>j<k'. \<not> passes (fetch_result_of net (nfetch ?s1 + j) (probe (ports ! j)))"
    proof (intro allI impI)
      fix j assume "j < k'"
      then have "Suc j < k" using Suc by simp
      with Cons.prems(2) have "\<not> passes (fetch_result_of net (nfetch s + Suc j) (probe ((port # ports) ! Suc j)))"
        by blast
      then show "\<not> passes (fetch_result_of net (nfetch ?s1 + j) (probe (ports ! j)))"
        by (simp add: nfetch_called)
    qed
    have at: "passes (fetch_result_of net (nfetch ?s1 + k') (probe (ports ! k')))"
      using Cons.prems(3) Suc by (simp add: nfetch_called)
    from Cons.IH [OF len before at] first Suc show ?thesis
      by (simp add: try_ports_step_fail del: try_ports.simps)
  qed
qed

lemma try_ports_all_fail:
  assumes "\<forall>j<length ports. \<not> passes (fetch_result_of net (nfetch s + j) (probe (ports ! j)))"
  shows "try_ports net ports s =
         Done (updateStatus (red_circle @ '' No Backend Found'') ''error''
                 (s\<lparr>log := log s @ map (\<lambda>p. FetchCalled (probe p)) ports\<rparr>))"
  using assms
proof (induction ports arbitrary: s)
  case Nil
  then show ?case by simp
next
  case (Cons port ports)
  let ?s1 = "s\<lparr>log := log s @ [FetchCalled (probe port)]\<rparr>"
  from Cons.prems have first: "\<not> passes (fetch_result_of net (nfetch s) (probe port))"
    by force
  have rest: "\<forall>j<length ports. \<not> passes (fetch_result_of net (nfetch ?s1 + j) (probe (ports ! j)))"
  proof (intro allI impI)
    fix j assume "j < length ports"
    then have "Suc j < length (port # ports)" by simp
    with Cons.prems have "\<not> passes (fetch_result_of net (nfetch s + Suc j) (probe ((port # ports) ! Suc j)))"
      by blast
    then show "\<not> passes (fetch_result_of net (nfetch ?s1 + j) (probe (ports ! j)))"
      by (simp add: nfetch_called)
  qed
  from Cons.IH [OF rest] first show ?case
    by (simp add: try_ports_step_fail del: try_ports.simps)
qed

lemma portsToTry_length: "length (portsToTry port) = 10"
  by (simp add: portsToTry_def Let_def)


lemma requests_of_probes: "requests_of (map (\<lambda>p. FetchCalled (probe p)) ps) = map probe ps"
  by (induction ps) simp_all

lemma portsToTry_numeral:
  "take 2 (portsToTry (nat_to_string P)) = [Finite (int P - 1), Finite (int P + 1)]"
  by (simp add: portsToTry_def parseInt_nat_to_string)

lemmas probe_defs = example_page_def net_only_def net_down_def nfetch_def probe_def
  get_request_def testUrl_def fetch_result_of_def passes_def ok_def
  url_parses_def url_port_def valid_port_def is_digit_def digits_value_def digit_val_def
  portsToTry_def parseInt_def parse_unsigned_def parse_digits_def ws_defs
  num_to_string_def nat_to_string_eval digit_char_def


lemma tryAlternativePorts_first_success:
  assumes "k < length (portsToTry (location_port s))"
    and "\<forall>j<k. \<not> passes (fetch_result_of net (nfetch s + j)
                         (probe (portsToTry (location_port s) ! j)))"
    and "passes (fetch_result_of net (nfetch s + k) (probe (portsToTry (location_port s) ! k)))"
  shows "tryAlternativePorts net s =
         Done (updateStatus (green_circle @ '' Connected'') ''connected''
                 (s\<lparr>log := log s @ map (\<lambda>p. FetchCalled (probe p))
                                     (take (Suc k) (portsToTry (location_port s))),
                    window_BACKEND_URL := Some (testUrl (portsToTry (location_port s) ! k))\<rparr>))"
  unfolding tryAlternativePorts_def by (rule try_ports_first_success [OF assms])

lemma checkBackendStatus_throws:
  assumes "primary_throws (fetch_result_of net (nfetch s) (primary_request s))"
  shows "checkBackendStatus net s =
     tryAlternativePorts net
       (updateStatus (red_circle @ '' Disconnected'') ''error''
          (s\<lparr>log := log s @ [FetchCalled (primary_request s)]\<rparr>))"
proof (cases "fetch_result_of net (nfetch s) (primary_request s)")
  case (Rejected e)
  then show ?thesis
    by (simp add: checkBackendStatus_def checkBackendStatus_try_def fetch_def try_catch_def
        primary_request_def)
next
  case (Resolved response)
  with assms obtain e where "ok response" "resp_json response = Inl e"
    by (auto simp: primary_throws_def split: sum.splits)
  with Resolved show ?thesis
    by (simp add: checkBackendStatus_def checkBackendStatus_try_def fetch_def try_catch_def
        primary_request_def)
qed

lemma checkBackendStatus_answered_not_ok:
  assumes "fetch_result_of net (nfetch s) (primary_request s) = Resolved response"
    and "\<not> ok response"
  shows "checkBackendStatus net s =
     Done (updateStatus (red_circle @ '' Backend Error'') ''error''
             (s\<lparr>log := log s @ [FetchCalled (primary_request s)]\<rparr>))"
  using assms
  by (simp add: checkBackendStatus_def checkBackendStatus_try_def fetch_def try_catch_def
      primary_request_def)

lemma checkBackendStatus_healthy:
  assumes "fetch_result_of net (nfetch s) (primary_request s) = Resolved response"
    and "ok response" and "resp_json response = Inr data"
  shows "checkBackendStatus net s =
     Done (updateStatus (green_circle @ '' Connected'') ''connected''
             (s\<lparr>log := log s @ [FetchCalled (primary_request s)]\<rparr>))"
  using assms
  by (simp add: checkBackendStatus_def checkBackendStatus_try_def fetch_def try_catch_def
      primary_request_def)

lemma checkBackendStatus_first_success:
  assumes "primary_throws (fetch_result_of net (nfetch s) (primary_request s))"
    and "k < length (portsToTry (location_port s))"
    and "\<forall>j<k. \<not> passes (fetch_result_of net (Suc (nfetch s) + j)
                         (probe (portsToTry (location_port s) ! j)))"
    and "passes (fetch_result_of net (Suc (nfetch s) + k)
                         (probe (portsToTry (location_port s) ! k)))"
  shows "checkBackendStatus net s =
     Done (updateStatus (green_circle @ '' Connected'') ''connected''
             (s\<lparr>log := log s @ FetchCalled (primary_request s)
                               # map (\<lambda>p. FetchCalled (probe p))
                                   (take (Suc k) (portsToTry (location_port s))),
                window_BACKEND_URL := Some (testUrl (portsToTry (location_port s) ! k))\<rparr>))"
proof -
  let ?s1 = "updateStatus (red_circle @ '' Disconnected'') ''error''
          (s\<lparr>log := log s @ [FetchCalled (primary_request s)]\<rparr>)"
  have n: "nfetch ?s1 = Suc (nfetch s)"
    by (simp add: nfetch_def updateStatus_def)
  have p: "location_port ?s1 = location_port s"
    by (simp add: updateStatus_def)
  have "try_ports net (portsToTry (location_port s)) ?s1 =
         Done (updateStatus (green_circle @ '' Connected'') ''connected''
                 (?s1\<lparr>log := log ?s1 @ map (\<lambda>p. FetchCalled (probe p))
                                        (take (Suc k) (portsToTry (location_port s))),
                      window_BACKEND_URL := Some (testUrl (portsToTry (location_port s) ! k))\<rparr>))"
    using assms(2-4) by (intro try_ports_first_success) (simp_all add: n)
  then show ?thesis
    by (simp add: checkBackendStatus_throws [OF assms(1)] tryAlternativePorts_def p)
       (simp add: updateStatus_def)
qed


lemmas primary_defs = primary_request_def primary_throws_def BACKEND_URL_def getBackendUrl_def
  net_ill_def healthy_reply_def net_then_down_def net_first_def

text \<open>
  Claim C3, as amended. The candidates are a fixed ordered list: the port derived from the
  page's URL (as \<open>parseInt\<close> reads it) minus 1 and plus 1, then 8002, 8002, 8003, ...,
  8008, so that 8002 is there twice. When the first health check throws (its \<open>fetch\<close> is
  rejected, or the body of an ok answer does not parse), \<open>checkBackendStatus\<close> probes them
  one after the other through \<open>tryAlternativePorts\<close>, stops at the first probe that passes,
  say the \<open>k\<close>-th, having called \<open>fetch\<close> for the candidates up to it and no other, and
  sets \<open>window.BACKEND_URL\<close> to that candidate's URL and the status to connected. When
  the first health check is answered with a status that is not ok, the status becomes
  \<open>Backend Error\<close> and no candidate is probed.
\<close>

theorem checkBackendStatus_discovery:
  "portsToTry (location_port s) =
     [num_sub (parseInt (location_port s)) (Finite 1),
      num_add (parseInt (location_port s)) (Finite 1),
      Finite 8002,
      Finite 8002, Finite 8003, Finite 8004, Finite 8005, Finite 8006, Finite 8007,
      Finite 8008]
   \<and> (\<forall>P. location_port s = nat_to_string P \<longrightarrow>
          take 2 (portsToTry (location_port s)) = [Finite (int P - 1), Finite (int P + 1)])
   \<and> (\<forall>k. primary_throws (fetch_result_of net (nfetch s) (primary_request s))
          \<and> k < length (portsToTry (location_port s))
          \<and> (\<forall>j<k. \<not> passes (fetch_result_of net (Suc (nfetch s) + j)
                               (probe (portsToTry (location_port s) ! j))))
          \<and> passes (fetch_result_of net (Suc (nfetch s) + k)
                       (probe (portsToTry (location_port s) ! k)))
        \<longrightarrow> checkBackendStatus net s =
             Done (updateStatus (green_circle @ '' Connected'') ''connected''
                     (s\<lparr>log := log s @ FetchCalled (primary_request s)
                                       # map (\<lambda>p. FetchCalled (probe p))
                                           (take (Suc k) (portsToTry (location_port s))),
                        window_BACKEND_URL :=
                          Some (testUrl (portsToTry (location_port s) ! k))\<rparr>)))
   \<and> (\<forall>response. fetch_result_of net (nfetch s) (primary_request s) = Resolved response
          \<and> \<not> ok response
        \<longrightarrow> checkBackendStatus net s =
             Done (updateStatus (red_circle @ '' Backend Error'') ''error''
                     (s\<lparr>log := log s @ [FetchCalled (primary_request s)]\<rparr>)))"
proof (intro conjI allI impI)
  show "portsToTry (location_port s) =
     [num_sub (parseInt (location_port s)) (Finite 1),
      num_add (parseInt (location_port s)) (Finite 1),
      Finite 8002,
      Finite 8002, Finite 8003, Finite 8004, Finite 8005, Finite 8006, Finite 8007,
      Finite 8008]"
    by (simp add: portsToTry_def Let_def)
next
  fix P assume "location_port s = nat_to_string P"
  then show "take 2 (portsToTry (location_port s)) = [Finite (int P - 1), Finite (int P + 1)]"
    by (simp add: portsToTry_numeral)
next
  fix k
  assume "primary_throws (fetch_result_of net (nfetch s) (primary_request s))
          \<and> k < length (portsToTry (location_port s))
          \<and> (\<forall>j<k. \<not> passes (fetch_result_of net (Suc (nfetch s) + j)
                               (probe (portsToTry (location_port s) ! j))))
          \<and> passes (fetch_result_of net (Suc (nfetch s) + k)
                       (probe (portsToTry (location_port s) ! k)))"
  then show "checkBackendStatus net s =
             Done (updateStatus (green_circle @ '' Connected'') ''connected''
                     (s\<lparr>log := log s @ FetchCalled (primary_request s)
                                       # map (\<lambda>p. FetchCalled (probe p))
                                           (take (Suc k) (portsToTry (location_port s))),
                        window_BACKEND_URL :=
                          Some (testUrl (portsToTry (location_port s) ! k))\<rparr>))"
    by (intro checkBackendStatus_first_success) blast+
next
  fix response
  assume "fetch_result_of net (nfetch s) (primary_request s) = Resolved response
          \<and> \<not> ok response"
  then show "checkBackendStatus net s =
             Done (updateStatus (red_circle @ '' Backend Error'') ''error''
                     (s\<lparr>log := log s @ [FetchCalled (primary_request s)]\<rparr>))"
    by (intro checkBackendStatus_answered_not_ok) blast+
qed

theorem checkBackendStatus_discovery_witness:
  "primary_throws (fetch_result_of (net_only ''http://localhost:8003'')
       (nfetch (example_page ''3001'' [])) (primary_request (example_page ''3001'' [])))
   \<and> passes (fetch_result_of (net_only ''http://localhost:8003'')
       (Suc (nfetch (example_page ''3001'' [])) + 4) (probe (Finite 8003)))
   \<and> checkBackendStatus (net_only ''http://localhost:8003'') (example_page ''3001'' [])
       = Done discovered_page"
proof -
  let ?s = "example_page ''3001'' []"
  let ?net = "net_only ''http://localhost:8003''"
  have ports: "portsToTry (location_port ?s) =
     [Finite 3000, Finite 3002, Finite 8002, Finite 8002, Finite 8003, Finite 8004,
      Finite 8005, Finite 8006, Finite 8007, Finite 8008]"
    by (simp add: example_page_def portsToTry_def parseInt_def parse_unsigned_def
        parse_digits_def ws_defs is_digit_def digits_value_def digit_val_def)
  have primary: "primary_request ?s = get_request ''http://localhost:3000/health''"
    by (simp add: primary_defs example_page_def parseInt_def parse_unsigned_def
        parse_digits_def ws_defs is_digit_def digits_value_def digit_val_def
        num_to_string_def nat_to_string_eval digit_char_def)
  have throws: "primary_throws (fetch_result_of ?net (nfetch ?s) (primary_request ?s))"
    by (simp add: primary primary_throws_def fetch_result_of_def net_only_def get_request_def
        url_parses_def url_port_def valid_port_def is_digit_def digits_value_def digit_val_def)
  have len: "4 < length (portsToTry (location_port ?s))"
    by (simp add: ports)
  have before: "\<forall>j<4. \<not> passes (fetch_result_of ?net (Suc (nfetch ?s) + j)
                         (probe (portsToTry (location_port ?s) ! j)))"
  proof (intro allI impI)
    fix j :: nat assume "j < 4"
    then have "j = 0 \<or> j = 1 \<or> j = 2 \<or> j = 3" by arith
    then show "\<not> passes (fetch_result_of ?net (Suc (nfetch ?s) + j)
                         (probe (portsToTry (location_port ?s) ! j)))"
      by (elim disjE) (simp_all add: ports, simp_all add: probe_defs)
  qed
  have at: "passes (fetch_result_of ?net (Suc (nfetch ?s) + 4)
                         (probe (portsToTry (location_port ?s) ! 4)))"
    by (simp add: ports) (simp add: probe_defs)
  from checkBackendStatus_discovery [of ?s ?net] throws len before at
  have "checkBackendStatus ?net ?s =
             Done (updateStatus (green_circle @ '' Connected'') ''connected''
                     (?s\<lparr>log := log ?s @ FetchCalled (primary_request ?s)
                                       # map (\<lambda>p. FetchCalled (probe p))
                                           (take (Suc 4) (portsToTry (location_port ?s))),
                        window_BACKEND_URL :=
                          Some (testUrl (portsToTry (location_port ?s) ! 4))\<rparr>))"
    by blast
  then have "checkBackendStatus ?net ?s = Done discovered_page"
    by (simp add: ports primary discovered_page_def testUrl_def num_to_string_def
        nat_to_string_eval digit_char_def)
       (simp add: example_page_def)
  with throws at show ?thesis by (simp add: ports)
qed

text \<open>
  Claim C3 as stated fails: the first health check is answered with status 503, so it
  fails, and a backend is healthy on port 8003, one of the candidates; yet
  \<open>checkBackendStatus\<close> calls \<open>fetch\<close> once, probes no candidate and leaves
  \<open>window.BACKEND_URL\<close> unset.
\<close>

theorem failed_primary_starts_no_probing:
  "\<not> passes (fetch_result_of (net_ill ''http://localhost:3000'' ''http://localhost:8003'') 0
        (primary_request (example_page ''3001'' [])))
   \<and> passes (fetch_result_of (net_ill ''http://localhost:3000'' ''http://localhost:8003'') 1
        (probe (Finite 8003)))
   \<and> checkBackendStatus (net_ill ''http://localhost:3000'' ''http://localhost:8003'')
        (example_page ''3001'' [])
      = Done (updateStatus (red_circle @ '' Backend Error'') ''error''
               ((example_page ''3001'' [])
                  \<lparr>log := [FetchCalled (get_request ''http://localhost:3000/health'')]\<rparr>))
   \<and> window_BACKEND_URL
        (settle (checkBackendStatus (net_ill ''http://localhost:3000'' ''http://localhost:8003'')
                   (example_page ''3001'' [])))
      = None"
proof -
  let ?s = "example_page ''3001'' []"
  let ?net = "net_ill ''http://localhost:3000'' ''http://localhost:8003''"
  let ?r = "\<lparr>resp_status = 503, resp_json = Inr (JObj [(''status'', JStr ''unavailable'')])\<rparr>"
  have primary: "primary_request ?s = get_request ''http://localhost:3000/health''"
    by (simp add: primary_defs example_page_def parseInt_def parse_unsigned_def
        parse_digits_def ws_defs is_digit_def digits_value_def digit_val_def
        num_to_string_def nat_to_string_eval digit_char_def)
  have out: "fetch_result_of ?net (nfetch ?s) (primary_request ?s) = Resolved ?r"
    by (simp add: primary fetch_result_of_def net_ill_def get_request_def
        url_parses_def url_port_def valid_port_def is_digit_def digits_value_def digit_val_def)
  have n0: "nfetch ?s = 0"
    by (simp add: nfetch_def example_page_def)
  have nok: "\<not> ok ?r"
    by (simp add: ok_def)
  have 1: "\<not> passes (fetch_result_of ?net 0 (primary_request ?s))"
    using out nok by (simp add: n0 passes_def)
  have 2: "passes (fetch_result_of ?net 1 (probe (Finite 8003)))"
    by (simp add: probe_defs net_ill_def)
  have 3: "checkBackendStatus ?net ?s
      = Done (updateStatus (red_circle @ '' Backend Error'') ''error''
               (?s\<lparr>log := [FetchCalled (get_request ''http://localhost:3000/health'')]\<rparr>))"
    using checkBackendStatus_answered_not_ok [OF out nok]
    by (simp add: primary) (simp add: example_page_def)
  have 4: "window_BACKEND_URL (settle (checkBackendStatus ?net ?s)) = None"
    by (subst 3) (simp add: settle_def updateStatus_def example_page_def)
  from 1 2 3 4 show ?thesis by blast
qed

lemma endpoint_cong:
  "location_port s' = location_port s \<Longrightarrow> window_BACKEND_URL s' = window_BACKEND_URL s \<Longrightarrow>
   AgentChat_getBackendUrl s' = AgentChat_getBackendUrl s"
  by (simp add: AgentChat_getBackendUrl_def BACKEND_URL_def split: option.split)

text \<open>
  Claim C4. When the probe of every candidate fails, \<open>tryAlternativePorts\<close> completes with
  the status \<open>No Backend Found\<close>, having probed all ten candidates in order, and leaves
  \<open>window.BACKEND_URL\<close> as it was (unset when it was unset), so the endpoint that
  \<open>getBackendUrl()\<close> gives is unchanged.
\<close>

theorem tryAlternativePorts_none_found:
  assumes "\<forall>j<length (portsToTry (location_port s)).
             \<not> passes (fetch_result_of net (nfetch s + j)
                         (probe (portsToTry (location_port s) ! j)))"
  shows "\<exists>s'. tryAlternativePorts net s = Done s'
     \<and> status_textContent s' = red_circle @ '' No Backend Found''
     \<and> status_className s' = ''status error''
     \<and> window_BACKEND_URL s' = window_BACKEND_URL s
     \<and> AgentChat_getBackendUrl s' = AgentChat_getBackendUrl s
     \<and> requests_since s s' = map probe (portsToTry (location_port s))"
proof -
  have "tryAlternativePorts net s =
      Done (updateStatus (red_circle @ '' No Backend Found'') ''error''
        (s\<lparr>log := log s @ map (\<lambda>p. FetchCalled (probe p)) (portsToTry (location_port s))\<rparr>))"
    unfolding tryAlternativePorts_def by (rule try_ports_all_fail [OF assms])
  moreover have "AgentChat_getBackendUrl
         (updateStatus (red_circle @ '' No Backend Found'') ''error''
            (s\<lparr>log := log s @ map (\<lambda>p. FetchCalled (probe p)) (portsToTry (location_port s))\<rparr>))
       = AgentChat_getBackendUrl s"
    by (rule endpoint_cong) (simp_all add: updateStatus_def)
  ultimately show ?thesis
    by (simp add: updateStatus_def requests_since_def requests_of_probes)
qed


theorem tryAlternativePorts_none_found_witness:
  "\<exists>s'. tryAlternativePorts net_down (example_page ''3001'' []) = Done s'
     \<and> status_textContent s' = red_circle @ '' No Backend Found''
     \<and> status_className s' = ''status error''
     \<and> window_BACKEND_URL s' = None
     \<and> AgentChat_getBackendUrl s' = ''http://localhost:3000''
     \<and> requests_since (example_page ''3001'' []) s' =
         map probe [Finite 3000, Finite 3002, Finite 8002, Finite 8002, Finite 8003,
                    Finite 8004, Finite 8005, Finite 8006, Finite 8007, Finite 8008]"
proof -
  have "\<not> passes (fetch_result_of net_down n r)" for n r
    by (simp add: fetch_result_of_def net_down_def passes_def)
  then have "\<forall>j<length (portsToTry (location_port (example_page ''3001'' []))).
             \<not> passes (fetch_result_of net_down (nfetch (example_page ''3001'' []) + j)
                         (probe (portsToTry (location_port (example_page ''3001'' [])) ! j)))"
    by blast
  from tryAlternativePorts_none_found [OF this] obtain s' where
    s': "tryAlternativePorts net_down (example_page ''3001'' []) = Done s'"
      "status_textContent s' = red_circle @ '' No Backend Found''"
      "status_className s' = ''status error''"
      "window_BACKEND_URL s' = window_BACKEND_URL (example_page ''3001'' [])"
      "AgentChat_getBackendUrl s' = AgentChat_getBackendUrl (example_page ''3001'' [])"
      "requests_since (example_page ''3001'' []) s' =
         map probe (portsToTry (location_port (example_page ''3001'' [])))"
    by (elim exE conjE)
  have "window_BACKEND_URL (example_page ''3001'' []) = None"
    and "AgentChat_getBackendUrl (example_page ''3001'' []) = ''http://localhost:3000''"
    and "portsToTry (location_port (example_page ''3001'' [])) =
           [Finite 3000, Finite 3002, Finite 8002, Finite 8002, Finite 8003,
            Finite 8004, Finite 8005, Finite 8006, Finite 8007, Finite 8008]"
    by (simp_all add: example_page_def portsToTry_def parseInt_def parse_unsigned_def
        parse_digits_def ws_defs is_digit_def digits_value_def digit_val_def
        AgentChat_getBackendUrl_def BACKEND_URL_def getBackendUrl_def
        num_to_string_def nat_to_string_eval digit_char_def)
  with s' show ?thesis by (intro exI [of _ s'] conjI) (simp_all only:)
qed

lemma probe_NaN_rejected: "\<not> passes (fetch_result_of net n (probe NaN))"
  by (simp add: probe_defs)

lemma portsToTry_no_port:
  "portsToTry [] = [NaN, NaN, Finite 8002, Finite 8002, Finite 8003, Finite 8004, Finite 8005,
                    Finite 8006, Finite 8007, Finite 8008]"
  by (simp add: portsToTry_def parseInt_empty)

lemma common_port:
  assumes "2 \<le> k" and "k < 10"
  shows "\<exists>p. 8002 \<le> p \<and> p \<le> 8008 \<and> portsToTry [] ! k = Finite p"
proof -
  from assms have "k = 2 \<or> k = 3 \<or> k = 4 \<or> k = 5 \<or> k = 6 \<or> k = 7 \<or> k = 8 \<or> k = 9"
    by arith
  then show ?thesis
    by (elim disjE) (simp_all add: portsToTry_no_port)
qed

text \<open>
  Claim C10. When the page's URL has no port, \<open>parseInt("")\<close> is \<open>NaN\<close> and the first
  two candidates are both \<open>NaN\<close>, probed at \<open>http://localhost:NaN\<close>. \<open>fetch\<close> rejects
  that URL whatever the backend, so such a probe never passes; when discovery succeeds, the
  URL it sets is that of one of the ports 8002 to 8008.
\<close>

theorem tryAlternativePorts_without_port:
  assumes "location_port s = []"
  shows "portsToTry (location_port s) =
           [NaN, NaN, Finite 8002, Finite 8002, Finite 8003, Finite 8004, Finite 8005,
            Finite 8006, Finite 8007, Finite 8008]
     \<and> testUrl NaN = ''http://localhost:NaN''
     \<and> (\<forall>net' n. \<not> passes (fetch_result_of net' n (probe NaN)))
     \<and> (\<exists>s'. tryAlternativePorts net s = Done s'
          \<and> ((status_className s' = ''status connected''
               \<and> (\<exists>p. 8002 \<le> p \<and> p \<le> 8008
                      \<and> window_BACKEND_URL s' = Some (testUrl (Finite p))))
              \<or> (status_textContent s' = red_circle @ '' No Backend Found''
                  \<and> window_BACKEND_URL s' = window_BACKEND_URL s)))"
proof (intro conjI allI)
  show "portsToTry (location_port s) =
           [NaN, NaN, Finite 8002, Finite 8002, Finite 8003, Finite 8004, Finite 8005,
            Finite 8006, Finite 8007, Finite 8008]"
    by (simp add: assms portsToTry_no_port)
next
  show "testUrl NaN = ''http://localhost:NaN''"
    by (simp add: testUrl_def num_to_string_def)
next
  fix net' n show "\<not> passes (fetch_result_of net' n (probe NaN))"
    by (rule probe_NaN_rejected)
next
  let ?ports = "portsToTry []"
  let ?Q = "\<lambda>j. j < length ?ports \<and> passes (fetch_result_of net (nfetch s + j) (probe (?ports ! j)))"
  show "\<exists>s'. tryAlternativePorts net s = Done s'
          \<and> ((status_className s' = ''status connected''
               \<and> (\<exists>p. 8002 \<le> p \<and> p \<le> 8008
                      \<and> window_BACKEND_URL s' = Some (testUrl (Finite p))))
              \<or> (status_textContent s' = red_circle @ '' No Backend Found''
                  \<and> window_BACKEND_URL s' = window_BACKEND_URL s))"
  proof (cases "\<exists>j. ?Q j")
    case True
    define k where "k = (LEAST j. ?Q j)"
    from True have Qk: "?Q k" unfolding k_def by (rule LeastI_ex)
    have least: "\<not> ?Q j" if "j < k" for j
      using that not_less_Least unfolding k_def by blast
    have before: "\<forall>j<k. \<not> passes (fetch_result_of net (nfetch s + j) (probe (?ports ! j)))"
    proof (intro allI impI)
      fix j assume "j < k"
      with least [of j] Qk show "\<not> passes (fetch_result_of net (nfetch s + j) (probe (?ports ! j)))"
        by simp
    qed
    have k2: "2 \<le> k"
    proof (rule ccontr)
      assume "\<not> 2 \<le> k"
      then have "k = 0 \<or> k = 1" by arith
      then have "?ports ! k = NaN" by (auto simp: portsToTry_no_port)
      with Qk probe_NaN_rejected show False by simp
    qed
    from Qk have k10: "k < 10" by (simp add: portsToTry_length)
    from common_port [OF k2 k10] obtain p where
      p: "8002 \<le> p" "p \<le> 8008" "?ports ! k = Finite p" by blast
    from Qk before have "try_ports net ?ports s =
         Done (updateStatus (green_circle @ '' Connected'') ''connected''
                 (s\<lparr>log := log s @ map (\<lambda>p. FetchCalled (probe p)) (take (Suc k) ?ports),
                    window_BACKEND_URL := Some (testUrl (?ports ! k))\<rparr>))"
      by (intro try_ports_first_success) simp_all
    with p show ?thesis
      by (auto simp add: tryAlternativePorts_def assms updateStatus_def)
  next
    case False
    then have "\<forall>j<length ?ports. \<not> passes (fetch_result_of net (nfetch s + j) (probe (?ports ! j)))"
      by blast
    from try_ports_all_fail [OF this] show ?thesis
      by (simp add: tryAlternativePorts_def assms updateStatus_def)
  qed
qed

theorem tryAlternativePorts_without_port_witness:
  "location_port (example_page [] []) = []
   \<and> \<not> passes (fetch_result_of (net_only ''http://localhost:NaN'') 0 (probe NaN))
   \<and> (\<exists>s'. tryAlternativePorts (net_only ''http://localhost:8004'') (example_page [] []) = Done s'
        \<and> status_className s' = ''status connected''
        \<and> window_BACKEND_URL s' = Some ''http://localhost:8004'')"
proof -
  let ?s = "example_page [] []"
  let ?net = "net_only ''http://localhost:8004''"
  have port: "location_port ?s = []"
    by (simp add: example_page_def)
  from tryAlternativePorts_without_port [OF port, of "net_only ''http://localhost:NaN''"]
  have nan: "\<not> passes (fetch_result_of (net_only ''http://localhost:NaN'') 0 (probe NaN))"
    by blast
  have len: "5 < length (portsToTry [])"
    by (simp add: portsToTry_no_port)
  have before: "\<forall>j<5. \<not> passes (fetch_result_of ?net (nfetch ?s + j) (probe (portsToTry [] ! j)))"
  proof (intro allI impI)
    fix j :: nat assume "j < 5"
    then have "j = 0 \<or> j = 1 \<or> j = 2 \<or> j = 3 \<or> j = 4" by arith
    then show "\<not> passes (fetch_result_of ?net (nfetch ?s + j) (probe (portsToTry [] ! j)))"
      by (elim disjE) (simp_all add: probe_defs)
  qed
  have at: "passes (fetch_result_of ?net (nfetch ?s + 5) (probe (portsToTry [] ! 5)))"
    by (simp add: probe_defs)
  have "tryAlternativePorts ?net ?s =
         Done (updateStatus (green_circle @ '' Connected'') ''connected''
                 (?s\<lparr>log := log ?s @ map (\<lambda>p. FetchCalled (probe p)) (take (Suc 5) (portsToTry [])),
                    window_BACKEND_URL := Some (testUrl (portsToTry [] ! 5))\<rparr>))"
    unfolding tryAlternativePorts_def port by (rule try_ports_first_success [OF len before at])
  then have "\<exists>s'. tryAlternativePorts ?net ?s = Done s'
        \<and> status_className s' = ''status connected''
        \<and> window_BACKEND_URL s' = Some ''http://localhost:8004''"
    by (simp add: updateStatus_def portsToTry_no_port testUrl_def num_to_string_def
        nat_to_string_eval digit_char_def)
  with port nan show ?thesis by blast
qed

subsection \<open>The list of files\<close>

lemma displayFiles_frame:
  "\<exists>h. settle (displayFiles files s) = s\<lparr>filesList_innerHTML := h\<rparr>"
proof (cases "displayFiles files s")
  case (Done s')
  then show ?thesis
    by (auto simp: displayFiles_def settle_def Let_def split: sum.splits if_splits jsval.splits)
next
  case (Thrown e s')
  then have "s' = s"
    by (auto simp: displayFiles_def Let_def split: sum.splits if_splits jsval.splits)
  with Thrown have "settle (displayFiles files s) = s\<lparr>filesList_innerHTML := filesList_innerHTML s\<rparr>"
    by (simp add: settle_def)
  then show ?thesis by blast
qed

lemma displayFiles_empty:
  "displayFiles (JArr []) s = Done (s\<lparr>filesList_innerHTML := no_files_html\<rparr>)"
  by (simp add: displayFiles_def js_get_def)

lemma fetch_files:
  "fetch net (get_request (AgentChat_getBackendUrl s @ ''/files'')) s =
     (fetch_result_of net (nfetch s) (files_request s), s\<lparr>log := log s @ [FetchCalled (files_request s)]\<rparr>)"
  by (simp add: fetch_def files_request_def)

lemma loadFiles_done: "\<exists>s'. loadFiles net s = Done s'"
  by (cases "loadFiles_try net s") (simp_all add: loadFiles_def try_catch_def)

lemma loadFiles_rejected:
  assumes "fetch_result_of net (nfetch s) (files_request s) = Rejected e"
  shows "loadFiles net s = Done (s\<lparr>log := log s @ [FetchCalled (files_request s)]\<rparr>)"
  using assms by (simp add: loadFiles_def loadFiles_try_def fetch_files try_catch_def)

lemma loadFiles_unparsed:
  assumes "fetch_result_of net (nfetch s) (files_request s) = Resolved response"
    and "resp_json response = Inl e"
  shows "loadFiles net s = Done (s\<lparr>log := log s @ [FetchCalled (files_request s)]\<rparr>)"
  using assms by (simp add: loadFiles_def loadFiles_try_def fetch_files try_catch_def)

lemma loadFiles_no_files:
  assumes "fetch_result_of net (nfetch s) (files_request s) = Resolved response"
    and "resp_json response = Inr result"
    and "js_get result ''files'' = Inl e"
  shows "loadFiles net s = Done (s\<lparr>log := log s @ [FetchCalled (files_request s)]\<rparr>)"
  using assms by (simp add: loadFiles_def loadFiles_try_def fetch_files try_catch_def)

lemma loadFiles_display:
  assumes "fetch_result_of net (nfetch s) (files_request s) = Resolved response"
    and "resp_json response = Inr result"
    and "js_get result ''files'' = Inr f"
  shows "loadFiles net s =
     Done (settle (displayFiles (js_or f (JArr [])) (s\<lparr>log := log s @ [FetchCalled (files_request s)]\<rparr>)))"
  using assms
  by (cases "displayFiles (js_or f (JArr [])) (s\<lparr>log := log s @ [FetchCalled (files_request s)]\<rparr>)")
     (simp_all add: loadFiles_def loadFiles_try_def fetch_files try_catch_def settle_def)

lemma loadFiles_frame:
  "\<exists>h. loadFiles net s =
     Done (s\<lparr>log := log s @ [FetchCalled (files_request s)], filesList_innerHTML := h\<rparr>)"
proof (cases "fetch_result_of net (nfetch s) (files_request s)")
  case (Rejected e)
  from loadFiles_rejected [OF this]
  have "loadFiles net s = Done (s\<lparr>log := log s @ [FetchCalled (files_request s)],
                                  filesList_innerHTML := filesList_innerHTML s\<rparr>)"
    by simp
  then show ?thesis by blast
next
  case (Resolved response)
  show ?thesis
  proof (cases "resp_json response")
    case (Inl e)
    from loadFiles_unparsed [OF Resolved this]
    have "loadFiles net s = Done (s\<lparr>log := log s @ [FetchCalled (files_request s)],
                                  filesList_innerHTML := filesList_innerHTML s\<rparr>)"
      by simp
    then show ?thesis by blast
  next
    case result: (Inr result)
    show ?thesis
    proof (cases "js_get result ''files''")
      case (Inl e)
      from loadFiles_no_files [OF Resolved result this]
      have "loadFiles net s = Done (s\<lparr>log := log s @ [FetchCalled (files_request s)],
                                  filesList_innerHTML := filesList_innerHTML s\<rparr>)"
        by simp
      then show ?thesis by blast
    next
      case (Inr f)
      from displayFiles_frame [of "js_or f (JArr [])" "s\<lparr>log := log s @ [FetchCalled (files_request s)]\<rparr>"]
      obtain h where "settle (displayFiles (js_or f (JArr [])) (s\<lparr>log := log s @ [FetchCalled (files_request s)]\<rparr>))
          = s\<lparr>log := log s @ [FetchCalled (files_request s)], filesList_innerHTML := h\<rparr>"
        by auto
      with loadFiles_display [OF Resolved result Inr] show ?thesis by auto
    qed
  qed
qed


lemma requests_since_called:
  "requests_since s (s\<lparr>log := log s @ [FetchCalled r], filesList_innerHTML := h\<rparr>) = [r]"
  "requests_since s (s\<lparr>log := log s @ [FetchCalled r]\<rparr>) = [r]"
  by (simp_all add: requests_since_def)

lemmas files_defs = example_page_def net_reply_def net_first_def empty_body_def
  listing_reply_def empty_listing_def nfetch_def files_request_def get_request_def
  fetch_result_of_def url_parses_def url_port_def valid_port_def is_digit_def
  digits_value_def digit_val_def AgentChat_getBackendUrl_def BACKEND_URL_def
  getBackendUrl_def parseInt_def parse_unsigned_def parse_digits_def ws_defs
  num_to_string_def nat_to_string_eval digit_char_def js_get_def

text \<open>
  Claim C7, as amended. \<open>loadFiles\<close> always completes: no exception reaches its caller,
  and it calls \<open>fetch\<close> once. When the body parses to a value whose \<open>files\<close> is
  missing, falsy or the empty array, the list degrades to the empty one and the empty-state
  indicator is rendered. When the request is rejected or the body does not parse, nothing is
  rendered: the list on the page stays as it was.
\<close>

theorem loadFiles_degrades_or_keeps_list:
  "\<exists>s'. loadFiles net s = Done s'
     \<and> requests_since s s' = [files_request s]
     \<and> (\<forall>response result f.
            fetch_result_of net (nfetch s) (files_request s) = Resolved response
            \<and> resp_json response = Inr result \<and> js_get result ''files'' = Inr f
            \<and> (\<not> truthy f \<or> f = JArr [])
            \<longrightarrow> filesList_innerHTML s' = no_files_html)
     \<and> (\<forall>e. fetch_result_of net (nfetch s) (files_request s) = Rejected e
            \<longrightarrow> filesList_innerHTML s' = filesList_innerHTML s)
     \<and> (\<forall>response e.
            fetch_result_of net (nfetch s) (files_request s) = Resolved response
            \<and> resp_json response = Inl e
            \<longrightarrow> filesList_innerHTML s' = filesList_innerHTML s)"
proof -
  from loadFiles_frame [of net s] obtain h where
    fin: "loadFiles net s =
      Done (s\<lparr>log := log s @ [FetchCalled (files_request s)], filesList_innerHTML := h\<rparr>)"
    by blast
  let ?s' = "s\<lparr>log := log s @ [FetchCalled (files_request s)], filesList_innerHTML := h\<rparr>"
  have empty: "filesList_innerHTML ?s' = no_files_html"
    if "fetch_result_of net (nfetch s) (files_request s) = Resolved response"
      and "resp_json response = Inr result" and "js_get result ''files'' = Inr f"
      and "\<not> truthy f \<or> f = JArr []" for response result f
  proof -
    from that(4) have "js_or f (JArr []) = JArr []" by (auto simp: js_or_def)
    with loadFiles_display [OF that(1-3)] fin show ?thesis
      by (simp add: displayFiles_empty settle_def)
  qed
  have rejected: "filesList_innerHTML ?s' = filesList_innerHTML s"
    if "fetch_result_of net (nfetch s) (files_request s) = Rejected e" for e
    using loadFiles_rejected [OF that] fin by simp
  have unparsed: "filesList_innerHTML ?s' = filesList_innerHTML s"
    if "fetch_result_of net (nfetch s) (files_request s) = Resolved response"
      and "resp_json response = Inl e" for response e
    using loadFiles_unparsed [OF that] fin by simp
  show ?thesis
  proof (intro exI [of _ ?s'] conjI allI impI)
    show "loadFiles net s = Done ?s'" by (rule fin)
    show "requests_since s ?s' = [files_request s]" by (simp add: requests_since_called)
  next
    fix response result f
    assume "fetch_result_of net (nfetch s) (files_request s) = Resolved response
            \<and> resp_json response = Inr result \<and> js_get result ''files'' = Inr f
            \<and> (\<not> truthy f \<or> f = JArr [])"
    then show "filesList_innerHTML ?s' = no_files_html" using empty by blast
  next
    fix e assume "fetch_result_of net (nfetch s) (files_request s) = Rejected e"
    then show "filesList_innerHTML ?s' = filesList_innerHTML s" by (rule rejected)
  next
    fix response e
    assume "fetch_result_of net (nfetch s) (files_request s) = Resolved response
            \<and> resp_json response = Inl e"
    then show "filesList_innerHTML ?s' = filesList_innerHTML s" using unparsed by blast
  qed
qed


theorem loadFiles_degrades_or_keeps_list_witness:
  "fetch_result_of (net_reply 200 (Inr empty_listing)) (nfetch (example_page ''3001'' []))
      (files_request (example_page ''3001'' []))
     = Resolved \<lparr>resp_status = 200, resp_json = Inr empty_listing\<rparr>
   \<and> js_get empty_listing ''files'' = Inr (JArr [])
   \<and> (\<exists>s'. loadFiles (net_reply 200 (Inr empty_listing)) (example_page ''3001'' []) = Done s'
        \<and> requests_since (example_page ''3001'' []) s' = [get_request ''http://localhost:3000/files'']
        \<and> filesList_innerHTML s' = no_files_html)"
proof -
  let ?s = "example_page ''3001'' []"
  let ?net = "net_reply 200 (Inr empty_listing)"
  have out: "fetch_result_of ?net (nfetch ?s) (files_request ?s)
     = Resolved \<lparr>resp_status = 200, resp_json = Inr empty_listing\<rparr>"
    by (simp add: files_defs)
  have body: "resp_json \<lparr>resp_status = 200, resp_json = Inr empty_listing\<rparr> = Inr empty_listing"
    by simp
  have files: "js_get empty_listing ''files'' = Inr (JArr [])"
    by (simp add: empty_listing_def js_get_def)
  have req: "files_request ?s = get_request ''http://localhost:3000/files''"
    by (simp add: files_defs)
  from loadFiles_degrades_or_keeps_list [of ?net ?s] obtain s' where
    s': "loadFiles ?net ?s = Done s'" "requests_since ?s s' = [files_request ?s]"
    and e: "\<forall>response result f.
            fetch_result_of ?net (nfetch ?s) (files_request ?s) = Resolved response
            \<and> resp_json response = Inr result \<and> js_get result ''files'' = Inr f
            \<and> (\<not> truthy f \<or> f = JArr [])
            \<longrightarrow> filesList_innerHTML s' = no_files_html"
    by blast
  from e out body files have "filesList_innerHTML s' = no_files_html" by blast
  with s' req out files show ?thesis by (intro conjI exI [of _ s']) simp_all
qed


lemma displayFiles_one_named:
  "displayFiles (JArr [JObj [(''filename'', JStr name)]]) s =
     Done (s\<lparr>filesList_innerHTML := file_item_html (AgentChat_getBackendUrl s) name\<rparr>)"
  by (simp add: displayFiles_def js_get_def file_item_def)

text \<open>
  Claim C7 as stated fails: after a first listing has rendered the row of \<open>a.txt\<close>, a reply
  with an empty body (which \<open>response.json()\<close> cannot parse) leaves that row on the page
  instead of the empty list.
\<close>

theorem loadFiles_empty_body_keeps_stale_list:
  "filesList_innerHTML
     (run (net_first (Resolved \<lparr>resp_status = 200, resp_json = Inr listing_reply\<rparr>) empty_body)
        [RefreshFiles, RefreshFiles] (example_page ''3001'' []))
     = file_item_html ''http://localhost:3000'' ''a.txt''
   \<and> file_item_html ''http://localhost:3000'' ''a.txt'' \<noteq> no_files_html"
proof -
  let ?net = "net_first (Resolved \<lparr>resp_status = 200, resp_json = Inr listing_reply\<rparr>) empty_body"
  let ?s0 = "example_page ''3001'' []"
  let ?req = "get_request ''http://localhost:3000/files''"
  let ?s1 = "?s0\<lparr>log := [FetchCalled ?req],
                 filesList_innerHTML := file_item_html ''http://localhost:3000'' ''a.txt''\<rparr>"
  have req0: "files_request ?s0 = ?req"
    by (simp add: files_defs)
  have out0: "fetch_result_of ?net (nfetch ?s0) (files_request ?s0)
     = Resolved \<lparr>resp_status = 200, resp_json = Inr listing_reply\<rparr>"
    by (simp add: files_defs)
  have ep: "AgentChat_getBackendUrl (?s0\<lparr>log := log ?s0 @ [FetchCalled ?req]\<rparr>) = ''http://localhost:3000''"
    by (simp add: files_defs)
  have first: "loadFiles ?net ?s0 = Done ?s1"
    using loadFiles_display [OF out0, of listing_reply "JArr [JObj [(''filename'', JStr ''a.txt'')]]"]
    by (simp add: req0 listing_reply_def js_get_def js_or_def truthy_def displayFiles_one_named
        ep settle_def) (simp add: example_page_def)
  have req1: "files_request ?s1 = ?req"
    by (simp add: files_defs)
  have out1: "fetch_result_of ?net (nfetch ?s1) (files_request ?s1) = empty_body"
    by (simp add: files_defs)
  have second: "loadFiles ?net ?s1 = Done (?s1\<lparr>log := log ?s1 @ [FetchCalled ?req]\<rparr>)"
    using loadFiles_unparsed [of ?net ?s1 "\<lparr>resp_status = 200, resp_json = Inl ''Unexpected end of JSON input''\<rparr>"
        "''Unexpected end of JSON input''"] out1
    by (simp add: req1 empty_body_def)
  have "filesList_innerHTML (run ?net [RefreshFiles, RefreshFiles] ?s0)
     = file_item_html ''http://localhost:3000'' ''a.txt''"
    by (simp add: first second settle_def)
  moreover have "file_item_html ''http://localhost:3000'' ''a.txt'' \<noteq> no_files_html"
    by (simp add: file_item_html_def no_files_html_def nl_def)
  ultimately show ?thesis by blast
qed

subsection \<open>Sessions\<close>

lemma addMessage_fields:
  "location_port (settle (addMessage c ty s)) = location_port s"
  "window_BACKEND_URL (settle (addMessage c ty s)) = window_BACKEND_URL s"
  by (simp_all add: addMessage_def settle_def Let_def split: sum.split)

lemma sendMessage_try_fields:
  "location_port (settle (sendMessage_try net m s)) = location_port s"
  "window_BACKEND_URL (settle (sendMessage_try net m s)) = window_BACKEND_URL s"
  by (simp_all add: sendMessage_try_def fetch_def addMessage_def and_then_def setTimeout_def
      settle_def Let_def split: sum.split fetch_result.split)

lemma sendMessage_fields:
  "location_port (settle (sendMessage net s)) = location_port s"
  "window_BACKEND_URL (settle (sendMessage net s)) = window_BACKEND_URL s"
proof -
  show "location_port (settle (sendMessage net s)) = location_port s"
  proof (cases "trim (input_value s) = []")
    case True
    then show ?thesis by (simp add: sendMessage_def settle_def)
  next
    case False
    have e: "location_port (echoed s) = location_port s"
      by (simp add: echoed_def setLoading_def)
    show ?thesis
    proof (cases "sendMessage_try net (trim (input_value s)) (echoed s)")
      case (Done s')
      with sendMessage_try_fields(1) [of net "trim (input_value s)" "echoed s"] e
      show ?thesis
        by (simp add: sendMessage_nonempty [OF False] try_catch_def try_finally_def settle_def
            setLoading_def)
    next
      case (Thrown x s')
      with sendMessage_try_fields(1) [of net "trim (input_value s)" "echoed s"] e
      show ?thesis
        by (simp add: sendMessage_nonempty [OF False] try_catch_def try_finally_def settle_def
            setLoading_def sendMessage_catch_done updateStatus_def)
    qed
  qed
  show "window_BACKEND_URL (settle (sendMessage net s)) = window_BACKEND_URL s"
  proof (cases "trim (input_value s) = []")
    case True
    then show ?thesis by (simp add: sendMessage_def settle_def)
  next
    case False
    have e: "window_BACKEND_URL (echoed s) = window_BACKEND_URL s"
      by (simp add: echoed_def setLoading_def)
    show ?thesis
    proof (cases "sendMessage_try net (trim (input_value s)) (echoed s)")
      case (Done s')
      with sendMessage_try_fields(2) [of net "trim (input_value s)" "echoed s"] e
      show ?thesis
        by (simp add: sendMessage_nonempty [OF False] try_catch_def try_finally_def settle_def
            setLoading_def)
    next
      case (Thrown x s')
      with sendMessage_try_fields(2) [of net "trim (input_value s)" "echoed s"] e
      show ?thesis
        by (simp add: sendMessage_nonempty [OF False] try_catch_def try_finally_def settle_def
            setLoading_def sendMessage_catch_done updateStatus_def)
    qed
  qed
qed


lemma requests_of_append: "requests_of (es @ es') = requests_of es @ requests_of es'"
  by (induction es rule: requests_of.induct) simp_all

lemma reuses_refl: "reuses s s"
  by (simp add: reuses_def)

lemma reuses_trans:
  assumes "reuses s s'" and "reuses s' s''"
  shows "reuses s s''"
proof -
  from assms(1) have f: "location_port s' = location_port s"
      "window_BACKEND_URL s' = window_BACKEND_URL s"
    by (simp_all add: reuses_def)
  then have ep: "AgentChat_getBackendUrl s' = AgentChat_getBackendUrl s"
    by (rule endpoint_cong)
  from assms(1) obtain es where es: "log s' = log s @ es"
      "list_all (\<lambda>req. req_url req = AgentChat_getBackendUrl s @ ''/query''
                       \<or> req_url req = AgentChat_getBackendUrl s @ ''/files'') (requests_of es)"
    unfolding reuses_def by blast
  from assms(2) obtain es' where es': "log s'' = log s' @ es'"
      "list_all (\<lambda>req. req_url req = AgentChat_getBackendUrl s @ ''/query''
                       \<or> req_url req = AgentChat_getBackendUrl s @ ''/files'') (requests_of es')"
    unfolding reuses_def ep by blast
  from es es' have l: "\<exists>es''. log s'' = log s @ es''
      \<and> list_all (\<lambda>req. req_url req = AgentChat_getBackendUrl s @ ''/query''
                       \<or> req_url req = AgentChat_getBackendUrl s @ ''/files'') (requests_of es'')"
    by (intro exI [of _ "es @ es'"]) (simp add: requests_of_append)
  from assms(1) have h1: "filesList_innerHTML s' = filesList_innerHTML s
          \<or> filesList_innerHTML s' = no_files_html
          \<or> (\<exists>names. filesList_innerHTML s' =
                 concat (map (file_item_html (AgentChat_getBackendUrl s)) names))"
    unfolding reuses_def by blast
  from assms(2) have h2: "filesList_innerHTML s'' = filesList_innerHTML s'
          \<or> filesList_innerHTML s'' = no_files_html
          \<or> (\<exists>names. filesList_innerHTML s'' =
                 concat (map (file_item_html (AgentChat_getBackendUrl s)) names))"
    unfolding reuses_def ep by blast
  from h1 h2 have h: "filesList_innerHTML s'' = filesList_innerHTML s
          \<or> filesList_innerHTML s'' = no_files_html
          \<or> (\<exists>names. filesList_innerHTML s'' =
                 concat (map (file_item_html (AgentChat_getBackendUrl s)) names))"
    by auto
  from assms(2) f have "location_port s'' = location_port s"
      "window_BACKEND_URL s'' = window_BACKEND_URL s"
    by (simp_all add: reuses_def)
  with l h show ?thesis unfolding reuses_def by blast
qed


lemma file_item_row:
  "file_item ep x = Inr y \<Longrightarrow> \<exists>name. y = file_item_html ep name"
  by (auto simp: file_item_def split: sum.splits)

lemma map_throws_rows:
  "map_throws (file_item ep) xs = Inr rows \<Longrightarrow> \<exists>names. rows = map (file_item_html ep) names"
proof (induction xs arbitrary: rows)
  case Nil
  then show ?case by simp
next
  case (Cons x xs)
  from Cons.prems obtain y ys where y: "file_item ep x = Inr y"
    and ys: "map_throws (file_item ep) xs = Inr ys" and rows: "rows = y # ys"
    by (auto split: sum.splits)
  from file_item_row [OF y] obtain name where "y = file_item_html ep name" by blast
  moreover from Cons.IH [OF ys] obtain names where "ys = map (file_item_html ep) names" by blast
  ultimately have "rows = map (file_item_html ep) (name # names)" using rows by simp
  then show ?case by blast
qed

lemma displayFiles_links:
  "filesList_innerHTML (settle (displayFiles f s)) = filesList_innerHTML s
   \<or> filesList_innerHTML (settle (displayFiles f s)) = no_files_html
   \<or> (\<exists>names. filesList_innerHTML (settle (displayFiles f s)) =
          concat (map (file_item_html (AgentChat_getBackendUrl s)) names))"
proof (cases "displayFiles f s")
  case (Thrown e s')
  then have "s' = s"
    by (auto simp: displayFiles_def Let_def split: sum.splits if_splits jsval.splits)
  with Thrown show ?thesis by (simp add: settle_def)
next
  case (Done s')
  show ?thesis
  proof (cases "js_get f ''length'' = Inr (JNum (Finite 0))")
    case True
    with Done show ?thesis by (auto simp: displayFiles_def settle_def)
  next
    case False
    with Done obtain xs rows where "f = JArr xs"
      and rows: "map_throws (file_item (AgentChat_getBackendUrl s)) xs = Inr rows"
      and s': "s' = s\<lparr>filesList_innerHTML := concat rows\<rparr>"
      by (auto simp: displayFiles_def Let_def split: sum.splits if_splits jsval.splits)
    from map_throws_rows [OF rows] s' Done show ?thesis
      by (auto simp: settle_def)
  qed
qed

lemma loadFiles_reuses: "reuses s (settle (loadFiles net s))"
proof -
  let ?s1 = "s\<lparr>log := log s @ [FetchCalled (files_request s)]\<rparr>"
  have ep1: "AgentChat_getBackendUrl ?s1 = AgentChat_getBackendUrl s"
    by (simp add: endpoint_frame)
  from loadFiles_frame [of net s] obtain h where
    fin: "loadFiles net s =
      Done (s\<lparr>log := log s @ [FetchCalled (files_request s)], filesList_innerHTML := h\<rparr>)"
    by blast
  have h: "h = filesList_innerHTML s \<or> h = no_files_html
      \<or> (\<exists>names. h = concat (map (file_item_html (AgentChat_getBackendUrl s)) names))"
  proof (cases "fetch_result_of net (nfetch s) (files_request s)")
    case (Rejected e)
    from loadFiles_rejected [OF this] fin
    have "?s1 = s\<lparr>log := log s @ [FetchCalled (files_request s)], filesList_innerHTML := h\<rparr>"
      by simp
    from arg_cong [OF this, of filesList_innerHTML] show ?thesis by simp
  next
    case (Resolved response)
    show ?thesis
    proof (cases "resp_json response")
      case (Inl e)
      from loadFiles_unparsed [OF Resolved this] fin
      have "?s1 = s\<lparr>log := log s @ [FetchCalled (files_request s)], filesList_innerHTML := h\<rparr>"
        by simp
      from arg_cong [OF this, of filesList_innerHTML] show ?thesis by simp
    next
      case result: (Inr result)
      show ?thesis
      proof (cases "js_get result ''files''")
        case (Inl e)
        from loadFiles_no_files [OF Resolved result this] fin
        have "?s1 = s\<lparr>log := log s @ [FetchCalled (files_request s)], filesList_innerHTML := h\<rparr>"
          by simp
        from arg_cong [OF this, of filesList_innerHTML] show ?thesis by simp
      next
        case (Inr f)
        from loadFiles_display [OF Resolved result Inr] fin
        have "settle (displayFiles (js_or f (JArr [])) ?s1)
            = s\<lparr>log := log s @ [FetchCalled (files_request s)], filesList_innerHTML := h\<rparr>"
          by simp
        from arg_cong [OF this, of filesList_innerHTML]
        have "filesList_innerHTML (settle (displayFiles (js_or f (JArr [])) ?s1)) = h"
          by simp
        with displayFiles_links [of "js_or f (JArr [])" ?s1] ep1 show ?thesis
          by auto
      qed
    qed
  qed
  have "req_url (files_request s) = AgentChat_getBackendUrl s @ ''/files''"
    by (simp add: files_request_def get_request_def)
  with fin h show ?thesis
    by (simp add: reuses_def settle_def)
qed


lemma sendMessage_try_log:
  "\<exists>es. log (settle (sendMessage_try net m s)) =
          log s @ FetchCalled (query_request (AgentChat_getBackendUrl s) m) # es
        \<and> requests_of es = []"
  by (simp add: sendMessage_try_def fetch_def addMessage_def and_then_def setTimeout_def
      settle_def Let_def split: sum.split fetch_result.split)

lemma sendMessage_try_files:
  "filesList_innerHTML (settle (sendMessage_try net m s)) = filesList_innerHTML s"
  by (simp add: sendMessage_try_def fetch_def addMessage_def and_then_def setTimeout_def
      settle_def Let_def split: sum.split fetch_result.split)

lemma sendMessage_settled:
  assumes "trim (input_value s) \<noteq> []"
  shows "settle (sendMessage net s) =
     (case sendMessage_try net (trim (input_value s)) (echoed s) of
        Done s' \<Rightarrow> setLoading False s'
      | Thrown e s' \<Rightarrow>
          setLoading False
            (updateStatus (red_circle @ '' Connection Error'') ''error''
               (s'\<lparr>messages := messages s' @ [error_message (''Connection error: '' @ e)],
                   log := log s' @ [MessageAppended (error_message (''Connection error: '' @ e))]\<rparr>)))"
  by (simp add: sendMessage_nonempty [OF assms] try_catch_def try_finally_def settle_def
      sendMessage_catch_done split: outcome.split)

lemma sendMessage_reuses: "reuses s (settle (sendMessage net s))"
proof (cases "trim (input_value s) = []")
  case True
  then show ?thesis by (simp add: sendMessage_def settle_def reuses_refl)
next
  case False
  let ?m = "trim (input_value s)"
  let ?t = "sendMessage_try net ?m (echoed s)"
  from sendMessage_try_log [of net ?m "echoed s"] obtain es where
    es: "log (settle ?t) = log (echoed s) @ FetchCalled (query_of s) # es" "requests_of es = []"
    by (auto simp: echoed_endpoint query_of_def)
  have fl: "filesList_innerHTML (settle ?t) = filesList_innerHTML s"
    by (simp add: sendMessage_try_files) (simp add: echoed_def setLoading_def)
  have le: "log (echoed s) = log s @ [MessageAppended (user_message ?m)]"
    by (simp add: echoed_def setLoading_def)
  have url: "req_url (query_of s) = AgentChat_getBackendUrl s @ ''/query''"
    by (simp add: query_of_def query_request_def)
  have "\<exists>es'. log (settle (sendMessage net s)) = log s @ es' \<and> requests_of es' = [query_of s]"
  proof (cases ?t)
    case (Done s')
    with es le have "log (settle (sendMessage net s)) =
        log s @ (MessageAppended (user_message ?m) # FetchCalled (query_of s) # es)"
      by (subst sendMessage_settled [OF False]) (simp add: settle_def setLoading_def)
    with es(2) show ?thesis by (intro exI [of _ "MessageAppended (user_message ?m) # FetchCalled (query_of s) # es"]) simp
  next
    case (Thrown e s')
    with es le have "log (settle (sendMessage net s)) =
        log s @ (MessageAppended (user_message ?m) # FetchCalled (query_of s) # es
                  @ [MessageAppended (error_message (''Connection error: '' @ e))])"
      by (subst sendMessage_settled [OF False])
         (simp add: settle_def setLoading_def updateStatus_def)
    with es(2) show ?thesis
      by (intro exI [of _ "MessageAppended (user_message ?m) # FetchCalled (query_of s) # es
                  @ [MessageAppended (error_message (''Connection error: '' @ e))]"])
         (simp add: requests_of_append)
  qed
  then obtain es' where "log (settle (sendMessage net s)) = log s @ es'"
    and "requests_of es' = [query_of s]" by blast
  moreover have "filesList_innerHTML (settle (sendMessage net s)) = filesList_innerHTML s"
  proof (cases ?t)
    case (Done s')
    with fl show ?thesis
      by (subst sendMessage_settled [OF False]) (simp add: settle_def setLoading_def)
  next
    case (Thrown e s')
    with fl show ?thesis
      by (subst sendMessage_settled [OF False])
         (simp add: settle_def setLoading_def updateStatus_def)
  qed
  ultimately show ?thesis
    using url sendMessage_fields [of net s] by (auto simp: reuses_def)
qed

lemma step_reuses: "reuses s (step net a s)"
proof (cases a)
  case (Submit typed)
  have "reuses s (s\<lparr>input_value := typed\<rparr>)"
    by (simp add: reuses_def)
  from reuses_trans [OF this sendMessage_reuses] Submit show ?thesis by simp
next
  case RefreshFiles
  then show ?thesis by (simp add: loadFiles_reuses)
qed

lemma run_reuses: "reuses s (run net acts s)"
proof (induction acts arbitrary: s)
  case Nil
  then show ?case by (simp add: reuses_refl)
next
  case (Cons a acts)
  from reuses_trans [OF step_reuses Cons.IH] show ?case by simp
qed


lemma not_health_check:
  "req_url req = ep @ ''/query'' \<or> req_url req = ep @ ''/files'' \<Longrightarrow> \<not> health_check req"
  by (auto simp: health_check_def)

lemma reuses_no_health_check:
  assumes "reuses s s'"
  shows "list_all (\<lambda>req. \<not> health_check req) (requests_since s s')"
proof -
  from assms obtain es where es: "log s' = log s @ es"
      "list_all (\<lambda>req. req_url req = AgentChat_getBackendUrl s @ ''/query''
                       \<or> req_url req = AgentChat_getBackendUrl s @ ''/files'') (requests_of es)"
    unfolding reuses_def by blast
  have "\<not> health_check req" if "req \<in> set (requests_of es)" for req
    using es(2) that not_health_check [of req "AgentChat_getBackendUrl s"]
    by (auto simp: list_all_iff)
  then have "list_all (\<lambda>req. \<not> health_check req) (requests_of es)"
    by (simp add: list_all_iff)
  with es(1) show ?thesis by (simp add: requests_since_def)
qed

text \<open>
  Claim C5, as amended. Over any session of submitted messages and file-list refreshes, with
  any backend, the endpoint is reused: \<open>getBackendUrl()\<close> gives the same value after the
  session as before it, every request of the session goes to \<open>/query\<close> or \<open>/files\<close> at
  that value, the download links are built from it, and no request is a health check. This
  holds whether the calls succeed or fail: a failed call does not start a rediscovery.
\<close>

theorem session_reuses_endpoint:
  "reuses s (run net acts s)
   \<and> AgentChat_getBackendUrl (run net acts s) = AgentChat_getBackendUrl s
   \<and> list_all (\<lambda>req. \<not> health_check req) (requests_since s (run net acts s))"
proof (intro conjI)
  show r: "reuses s (run net acts s)" by (rule run_reuses)
  then show "AgentChat_getBackendUrl (run net acts s) = AgentChat_getBackendUrl s"
    by (intro endpoint_cong) (simp_all add: reuses_def)
  from r show "list_all (\<lambda>req. \<not> health_check req) (requests_since s (run net acts s))"
    by (rule reuses_no_health_check)
qed

lemma example_endpoint: "AgentChat_getBackendUrl (example_page ''3001'' typed) = ''http://localhost:3000''"
  by (simp add: example_defs)

theorem session_reuses_endpoint_witness:
  "AgentChat_getBackendUrl discovered_page = ''http://localhost:8003''
   \<and> AgentChat_getBackendUrl (run net_down [Submit ''hello'', RefreshFiles] discovered_page)
     = ''http://localhost:8003''
   \<and> window_BACKEND_URL (run net_down [Submit ''hello'', RefreshFiles] discovered_page)
     = Some ''http://localhost:8003''
   \<and> list_all (\<lambda>req. \<not> health_check req)
        (requests_since discovered_page
           (run net_down [Submit ''hello'', RefreshFiles] discovered_page))"
proof -
  note t = session_reuses_endpoint [of discovered_page net_down "[Submit ''hello'', RefreshFiles]"]
  have w: "window_BACKEND_URL discovered_page = Some ''http://localhost:8003''"
    by (simp add: discovered_page_def updateStatus_def)
  then have ep: "AgentChat_getBackendUrl discovered_page = ''http://localhost:8003''"
    by (simp add: AgentChat_getBackendUrl_def)
  from t have "AgentChat_getBackendUrl (run net_down [Submit ''hello'', RefreshFiles] discovered_page)
     = AgentChat_getBackendUrl discovered_page"
    by blast
  moreover from t have "window_BACKEND_URL (run net_down [Submit ''hello'', RefreshFiles] discovered_page)
     = window_BACKEND_URL discovered_page"
    unfolding reuses_def by blast
  moreover from t have "list_all (\<lambda>req. \<not> health_check req)
        (requests_since discovered_page
           (run net_down [Submit ''hello'', RefreshFiles] discovered_page))"
    by blast
  ultimately show ?thesis by (simp add: ep w)
qed

lemma net_then_down_rejects:
  "url_parses (req_url r) \<Longrightarrow> 0 < n \<Longrightarrow>
   fetch_result_of net_then_down n r = Rejected ''Failed to fetch''"
  by (simp add: fetch_result_of_def net_then_down_def net_first_def)

lemma validated_by_health_check:
  "checkBackendStatus net_then_down (example_page ''3001'' []) = Done validated_page"
proof -
  let ?s = "example_page ''3001'' []"
  have primary: "primary_request ?s = get_request ''http://localhost:3000/health''"
    by (simp add: primary_defs example_page_def parseInt_def parse_unsigned_def
        parse_digits_def ws_defs is_digit_def digits_value_def digit_val_def
        num_to_string_def nat_to_string_eval digit_char_def)
  have n: "nfetch ?s = 0"
    by (simp add: nfetch_def example_page_def)
  have out: "fetch_result_of net_then_down (nfetch ?s) (primary_request ?s)
      = Resolved \<lparr>resp_status = 200, resp_json = Inr (JObj [(''status'', JStr ''healthy'')])\<rparr>"
    unfolding primary n
    by (simp add: fetch_result_of_def net_then_down_def net_first_def healthy_reply_def
        get_request_def
        url_parses_def url_port_def valid_port_def is_digit_def digits_value_def digit_val_def)
  from checkBackendStatus_healthy [OF out] show ?thesis
    by (simp add: ok_def primary validated_page_def) (simp add: example_page_def)
qed

text \<open>
  Claim C5 as stated fails: the first health check validates the endpoint at port 3000; the
  backend then goes down and \<open>sendMessage\<close> fails, showing the connection error; yet the
  only requests after the validation are the query and the file list at the unchanged
  endpoint: none is a health check, and \<open>window.BACKEND_URL\<close> stays unset.
\<close>

theorem failed_call_triggers_no_rediscovery:
  "checkBackendStatus net_then_down (example_page ''3001'' []) = Done validated_page
   \<and> status_textContent validated_page = green_circle @ '' Connected''
   \<and> messages (run net_then_down [Submit ''hello'', RefreshFiles] validated_page)
     = [user_message ''hello'', error_message ''Connection error: Failed to fetch'']
   \<and> requests_since validated_page
        (run net_then_down [Submit ''hello'', RefreshFiles] validated_page)
     = [query_request ''http://localhost:3000'' ''hello'',
        get_request ''http://localhost:3000/files'']
   \<and> \<not> list_ex health_check
        (requests_since validated_page
          (run net_then_down [Submit ''hello'', RefreshFiles] validated_page))
   \<and> window_BACKEND_URL (run net_then_down [Submit ''hello'', RefreshFiles] validated_page)
     = None"
proof -
  let ?sh = "validated_page\<lparr>input_value := ''hello''\<rparr>"
  let ?h = "get_request ''http://localhost:3000/health''"
  let ?q = "query_request ''http://localhost:3000'' ''hello''"
  let ?f = "get_request ''http://localhost:3000/files''"
  have st: "status_textContent validated_page = green_circle @ '' Connected''"
    by (simp add: validated_page_def updateStatus_def)
  have fields: "location_port ?sh = location_port (example_page ''3001'' [])"
      "window_BACKEND_URL ?sh = window_BACKEND_URL (example_page ''3001'' [])"
    by (simp_all add: validated_page_def updateStatus_def)
  then have ep: "AgentChat_getBackendUrl ?sh = ''http://localhost:3000''"
    using endpoint_cong [of ?sh "example_page ''3001'' []"] by (simp add: example_endpoint)
  have ne: "trim (input_value ?sh) \<noteq> []" and tr: "trim (input_value ?sh) = ''hello''"
    by (simp_all add: ws_defs)
  have q: "query_of ?sh = ?q"
    unfolding query_of_def ep tr by (rule refl)
  have e0: "messages ?sh = []" "log ?sh = [FetchCalled ?h]" "log validated_page = [FetchCalled ?h]"
    by (simp_all add: validated_page_def updateStatus_def example_page_def)
  have n0: "nfetch ?sh = 1"
    by (simp add: nfetch_def e0)
  have out: "fetch_result_of net_then_down (nfetch ?sh) (query_of ?sh) = Rejected ''Failed to fetch''"
    unfolding q n0
    by (rule net_then_down_rejects)
       (simp_all add: query_request_def url_parses_def url_port_def valid_port_def
          is_digit_def digits_value_def digit_val_def)
  from shown_after_throw [OF ne sendMessage_try_rejected [OF out]]
  obtain s1 where s1: "sendMessage net_then_down ?sh = Done s1"
    and m1': "messages s1 = messages ?sh @ [user_message (trim (input_value ?sh)),
                 error_message (''Connection error: '' @ ''Failed to fetch'')]"
    and l1': "log s1 = log ?sh @ [MessageAppended (user_message (trim (input_value ?sh))),
                 FetchCalled (query_of ?sh),
                 MessageAppended (error_message (''Connection error: '' @ ''Failed to fetch''))]"
    unfolding shown_def by blast
  from m1' have m1: "messages s1 = [user_message ''hello'', error_message ''Connection error: Failed to fetch'']"
    unfolding tr e0 by simp
  from l1' have l1: "log s1 = [FetchCalled ?h, MessageAppended (user_message ''hello''), FetchCalled ?q,
                      MessageAppended (error_message ''Connection error: Failed to fetch'')]"
    unfolding tr e0 q by simp
  from sendMessage_fields [of net_then_down ?sh] s1
  have f1: "location_port s1 = location_port ?sh" "window_BACKEND_URL s1 = window_BACKEND_URL ?sh"
    by (simp_all add: settle_def del: state.simps)
  then have ep1: "AgentChat_getBackendUrl s1 = ''http://localhost:3000''"
    using endpoint_cong [of s1 ?sh] ep by simp
  have fr: "files_request s1 = ?f"
    by (simp add: files_request_def ep1)
  have n1: "nfetch s1 = 2"
    by (simp add: nfetch_def l1)
  have "fetch_result_of net_then_down (nfetch s1) (files_request s1) = Rejected ''Failed to fetch''"
    unfolding fr n1
    by (rule net_then_down_rejects)
       (simp_all add: get_request_def url_parses_def url_port_def valid_port_def
          is_digit_def digits_value_def digit_val_def)
  from loadFiles_rejected [OF this]
  have s2: "loadFiles net_then_down s1 = Done (s1\<lparr>log := log s1 @ [FetchCalled ?f]\<rparr>)"
    by (simp add: fr)
  have run: "run net_then_down [Submit ''hello'', RefreshFiles] validated_page
      = s1\<lparr>log := log s1 @ [FetchCalled ?f]\<rparr>"
    by (simp add: s1 s2 settle_def)
  have w: "window_BACKEND_URL ?sh = None"
    by (simp add: fields example_page_def)
  have rs: "requests_since validated_page (s1\<lparr>log := log s1 @ [FetchCalled ?f]\<rparr>) = [?q, ?f]"
    by (simp add: requests_since_def e0 l1)
  have nh: "\<not> health_check ?q" "\<not> health_check ?f"
    by (simp_all add: health_check_def query_request_def get_request_def)
  show ?thesis
    unfolding run rs using validated_by_health_check st m1 f1(2) w nh by simp
qed

end
